theory Spec2Isabelle
  imports Complex_Main "HOL-Library.AList"
begin

section \<open>JavaScript values\<close>

text \<open>
  The SDK is TypeScript; at run time its inputs and the server's answers are plain
  JavaScript values. Strings are modelled by their UTF-8 byte sequences. A number is
  \<open>NaN\<close>, an infinity or a finite value (a rational; \<open>-0\<close> is identified with \<open>0\<close>, the two
  are equally falsy and print the same).
\<close>

datatype jsnum = JNaN | JPosInf | JNegInf | JFinite rat

datatype jsval =
    JUndefined
  | JNull
  | JBool bool
  | JNum jsnum
  | JStr string
  | JArr "jsval list"
  | JObj "(string \<times> jsval) list"

text \<open>What \<open>throw\<close> carries: the constructor of the error and its message.\<close>

datatype js_error = Error string | TypeError string

text \<open>ToBoolean: what \<open>!v\<close>, \<open>v || w\<close>, \<open>v && w\<close> and \<open>if (v)\<close> test.\<close>

fun num_truthy :: "jsnum \<Rightarrow> bool" where
  "num_truthy JNaN = False"
| "num_truthy (JFinite r) = (r \<noteq> 0)"
| "num_truthy JPosInf = True"
| "num_truthy JNegInf = True"

fun truthy :: "jsval \<Rightarrow> bool" where
  "truthy JUndefined = False"
| "truthy JNull = False"
| "truthy (JBool b) = b"
| "truthy (JNum n) = num_truthy n"
| "truthy (JStr s) = (s \<noteq> [])"
| "truthy (JArr xs) = True"
| "truthy (JObj kvs) = True"

text \<open>\<open>a || b\<close> on values.\<close>

definition js_or :: "jsval \<Rightarrow> jsval \<Rightarrow> jsval" where
  "js_or a b = (if truthy a then a else b)"

text \<open>\<open>typeof v === "object"\<close>: objects, arrays and \<open>null\<close>.\<close>

fun typeof_object :: "jsval \<Rightarrow> bool" where
  "typeof_object JNull = True"
| "typeof_object (JArr xs) = True"
| "typeof_object (JObj kvs) = True"
| "typeof_object v = False"

text \<open>\<open>Array.isArray(v)\<close>.\<close>

fun isArray :: "jsval \<Rightarrow> bool" where
  "isArray (JArr xs) = True"
| "isArray v = False"

text \<open>
  Property read \<open>v.k\<close>, for a name \<open>k\<close> that no built-in prototype defines (all the names
  the SDK reads: \<open>code\<close>, \<open>data\<close>, \<open>message\<close> and the account fields): \<open>undefined\<close> and
  \<open>null\<close> throw a TypeError, an object gives its own property or \<open>undefined\<close>, every other
  value gives \<open>undefined\<close>.
\<close>

fun get_prop :: "jsval \<Rightarrow> string \<Rightarrow> js_error + jsval" where
  "get_prop JUndefined k =
     Inl (TypeError (''Cannot read properties of undefined (reading '' @ [CHR 0x27] @ k @ [CHR 0x27] @ '')''))"
| "get_prop JNull k =
     Inl (TypeError (''Cannot read properties of null (reading '' @ [CHR 0x27] @ k @ [CHR 0x27] @ '')''))"
| "get_prop (JObj kvs) k = Inr (case map_of kvs k of Some v \<Rightarrow> v | None \<Rightarrow> JUndefined)"
| "get_prop v k = Inr JUndefined"

text \<open>Optional chaining \<open>v?.k\<close>: \<open>undefined\<close> instead of the TypeError.\<close>

definition get_prop_opt :: "jsval \<Rightarrow> string \<Rightarrow> jsval" where
  "get_prop_opt v k = (case get_prop v k of Inl e \<Rightarrow> JUndefined | Inr w \<Rightarrow> w)"

subsection \<open>Decimal and hexadecimal digits\<close>

definition digit_char :: "nat \<Rightarrow> char" where
  "digit_char d = char_of (of_char CHR ''0'' + d)"

fun nat_digits :: "nat \<Rightarrow> string" where
  "nat_digits n = (if n < 10 then [digit_char n] else nat_digits (n div 10) @ [digit_char (n mod 10)])"

declare nat_digits.simps [simp del]

definition int_toString :: "int \<Rightarrow> string" where
  "int_toString i = (if i < 0 then CHR ''-'' # nat_digits (nat (- i)) else nat_digits (nat i))"

definition hex_digit :: "bool \<Rightarrow> nat \<Rightarrow> char" where
  "hex_digit upper d =
     (if d < 10 then digit_char d
      else char_of (of_char (if upper then CHR ''A'' else CHR ''a'') + (d - 10)))"

definition hex2 :: "bool \<Rightarrow> char \<Rightarrow> string" where
  "hex2 upper c = [hex_digit upper (of_char c div 16), hex_digit upper (of_char c mod 16)]"

definition join :: "string \<Rightarrow> string list \<Rightarrow> string" where
  "join sep xs = (case xs of [] \<Rightarrow> [] | y # ys \<Rightarrow> y @ concat (map (\<lambda>z. sep @ z) ys))"

subsection \<open>String(v) and JSON.stringify(v)\<close>

text \<open>
  Printing a finite number (Number::toString, the shortest digits that read back as the
  same double) is the platform's; it is the parameter \<open>shw\<close> below.
\<close>

fun num_toString :: "(rat \<Rightarrow> string) \<Rightarrow> jsnum \<Rightarrow> string" where
  "num_toString shw JNaN = ''NaN''"
| "num_toString shw JPosInf = ''Infinity''"
| "num_toString shw JNegInf = ''-Infinity''"
| "num_toString shw (JFinite r) = shw r"

fun js_String :: "(rat \<Rightarrow> string) \<Rightarrow> jsval \<Rightarrow> string"
  and js_String_elems :: "(rat \<Rightarrow> string) \<Rightarrow> jsval list \<Rightarrow> string list" where
  "js_String shw JUndefined = ''undefined''"
| "js_String shw JNull = ''null''"
| "js_String shw (JBool b) = (if b then ''true'' else ''false'')"
| "js_String shw (JNum n) = num_toString shw n"
| "js_String shw (JStr s) = s"
| "js_String shw (JArr xs) = join '','' (js_String_elems shw xs)"
| "js_String shw (JObj kvs) = ''[object Object]''"
| "js_String_elems shw [] = []"
| "js_String_elems shw (x # xs) =
     (if x = JUndefined \<or> x = JNull then [] else js_String shw x) # js_String_elems shw xs"

definition json_escape :: "char \<Rightarrow> string" where
  "json_escape c =
     (if c = CHR 0x22 then [CHR 0x5C, CHR 0x22]
      else if c = CHR 0x5C then [CHR 0x5C, CHR 0x5C]
      else if c = CHR 0x08 then [CHR 0x5C, CHR ''b'']
      else if c = CHR 0x0C then [CHR 0x5C, CHR ''f'']
      else if c = CHR 0x0A then [CHR 0x5C, CHR ''n'']
      else if c = CHR 0x0D then [CHR 0x5C, CHR ''r'']
      else if c = CHR 0x09 then [CHR 0x5C, CHR ''t'']
      else if (of_char c :: nat) < 32 then [CHR 0x5C, CHR ''u'', CHR ''0'', CHR ''0''] @ hex2 False c
      else [c])"

definition json_quote :: "string \<Rightarrow> string" where
  "json_quote s = [CHR 0x22] @ concat (map json_escape s) @ [CHR 0x22]"

text \<open>
  \<open>json_ser\<close> is SerializeJSONProperty: \<open>None\<close> is its \<open>undefined\<close> (the value has no JSON
  text). In an array such an element prints as \<open>null\<close>, in an object the property is left
  out. A number that is not finite prints as \<open>null\<close>.
\<close>

fun json_ser :: "(rat \<Rightarrow> string) \<Rightarrow> jsval \<Rightarrow> string option"
  and json_elems :: "(rat \<Rightarrow> string) \<Rightarrow> jsval list \<Rightarrow> string list"
  and json_props :: "(rat \<Rightarrow> string) \<Rightarrow> (string \<times> jsval) list \<Rightarrow> string list" where
  "json_ser shw JUndefined = None"
| "json_ser shw JNull = Some ''null''"
| "json_ser shw (JBool b) = Some (if b then ''true'' else ''false'')"
| "json_ser shw (JNum n) = Some (case n of JFinite r \<Rightarrow> shw r | _ \<Rightarrow> ''null'')"
| "json_ser shw (JStr s) = Some (json_quote s)"
| "json_ser shw (JArr xs) = Some (''['' @ join '','' (json_elems shw xs) @ '']'')"
| "json_ser shw (JObj kvs) = Some (''{'' @ join '','' (json_props shw kvs) @ ''}'')"
| "json_elems shw [] = []"
| "json_elems shw (x # xs) =
     (case json_ser shw x of None \<Rightarrow> ''null'' | Some s \<Rightarrow> s) # json_elems shw xs"
| "json_props shw [] = []"
| "json_props shw ((k, v) # kvs) =
     (case json_ser shw v of
        None \<Rightarrow> json_props shw kvs
      | Some s \<Rightarrow> (json_quote k @ '':'' @ s) # json_props shw kvs)"

definition JSON_stringify :: "(rat \<Rightarrow> string) \<Rightarrow> jsval \<Rightarrow> string option" where
  "JSON_stringify shw v = json_ser shw v"


section \<open>HttpClient\<close>

text \<open>
  The platform the code runs on: how a finite number prints, the wall clock
  (\<open>Date_now i\<close> is what the \<open>i\<close>-th call of \<open>Date.now()\<close> within one operation returns, in
  milliseconds) and the axios instance below the interceptors, which answers a request
  with the body of the response or fails with an error object.
\<close>

record axios_config =
  params :: "(string \<times> jsval) list"
  headers :: "(string \<times> string) list"

record axios_request =
  http_method :: string
  url :: string
  body :: "string option"
  config :: axios_config

record axios_error =
  response :: jsval
  message :: jsval

record platform =
  Number_toString :: "rat \<Rightarrow> string"
  Date_now :: "nat \<Rightarrow> int"
  adapter :: "axios_request \<Rightarrow> axios_error + jsval"

record HttpClient =
  baseURL :: string
  walletAddress :: "string option"
  authToken :: "string option"

text \<open>A call of the client: the requests that went out, and the value or the exception.\<close>

type_synonym 'a io = "axios_request list \<times> (js_error + 'a)"

definition setWalletAddress :: "string \<Rightarrow> HttpClient \<Rightarrow> HttpClient" where
  "setWalletAddress address c = c\<lparr>HttpClient.walletAddress := Some address\<rparr>"

definition setAuthToken :: "string \<Rightarrow> HttpClient \<Rightarrow> HttpClient" where
  "setAuthToken token c = c\<lparr>authToken := Some token\<rparr>"

text \<open>The request interceptor: the identity header, and the bearer token when one is set.\<close>

definition request_interceptor :: "HttpClient \<Rightarrow> axios_request \<Rightarrow> axios_request" where
  "request_interceptor c r =
     (let h0 = headers (config r);
          h1 = (case HttpClient.walletAddress c of
                  Some a \<Rightarrow> if a \<noteq> [] then AList.update ''X-Wallet-Address'' a h0 else h0
                | None \<Rightarrow> h0);
          h2 = (case authToken c of
                  Some t \<Rightarrow> if t \<noteq> [] then AList.update ''Authorization'' (''Bearer '' @ t) h1 else h1
                | None \<Rightarrow> h1)
      in r\<lparr>config := (config r)\<lparr>headers := h2\<rparr>\<rparr>)"

text \<open>
  The response interceptor's error branch:
  \<open>error.response?.data?.message || error.message || "Request failed"\<close>, wrapped in a new
  Error.
\<close>

definition response_error_interceptor :: "platform \<Rightarrow> axios_error \<Rightarrow> js_error" where
  "response_error_interceptor pf e =
     Error (js_String (Number_toString pf)
       (js_or (js_or (get_prop_opt (get_prop_opt (response e) ''data'') ''message'') (message e))
              (JStr ''Request failed'')))"

definition instance_request :: "platform \<Rightarrow> HttpClient \<Rightarrow> axios_request \<Rightarrow> jsval io" where
  "instance_request pf c r =
     (let r' = request_interceptor c r
      in ([r'], case adapter pf r' of
                  Inl e \<Rightarrow> Inl (response_error_interceptor pf e)
                | Inr b \<Rightarrow> Inr b))"

definition no_config :: axios_config where
  "no_config = \<lparr>params = [], headers = []\<rparr>"

definition http_get :: "platform \<Rightarrow> HttpClient \<Rightarrow> string \<Rightarrow> axios_config option \<Rightarrow> jsval io" where
  "http_get pf c u cfg =
     instance_request pf c
       \<lparr>http_method = ''GET'', url = u, body = None,
        config = (case cfg of None \<Rightarrow> no_config | Some g \<Rightarrow> g)\<rparr>"

subsection \<open>postForm\<close>

text \<open>
  \<open>Object.keys(data)\<close> and \<open>data[key]\<close> of an object given by its properties in enumeration
  order.
\<close>

definition Object_keys :: "(string \<times> jsval) list \<Rightarrow> string list" where
  "Object_keys data = map fst data"

definition own_prop :: "(string \<times> jsval) list \<Rightarrow> string \<Rightarrow> jsval" where
  "own_prop data key = (case map_of data key of Some v \<Rightarrow> v | None \<Rightarrow> JUndefined)"

text \<open>URLSearchParams: the list of name-value pairs, \<open>append\<close> adds one at the end.\<close>

definition form_append :: "(string \<times> string) list \<Rightarrow> string \<Rightarrow> string \<Rightarrow> (string \<times> string) list" where
  "form_append fd k v = fd @ [(k, v)]"

definition postForm_step :: "platform \<Rightarrow> (string \<times> jsval) list \<Rightarrow> (string \<times> string) list \<Rightarrow> string
    \<Rightarrow> (string \<times> string) list" where
  "postForm_step pf data formData key =
     (let v = own_prop data key
      in if v \<noteq> JUndefined \<and> v \<noteq> JNull then
           (if typeof_object v
            then form_append formData key
                   (case JSON_stringify (Number_toString pf) v of Some s \<Rightarrow> s | None \<Rightarrow> ''undefined'')
            else form_append formData key (js_String (Number_toString pf) v))
         else formData)"

definition postForm_formData :: "platform \<Rightarrow> (string \<times> jsval) list \<Rightarrow> (string \<times> string) list" where
  "postForm_formData pf data = foldl (postForm_step pf data) [] (Object_keys data)"

text \<open>
  \<open>formData.toString()\<close>: the application/x-www-form-urlencoded serialisation. A byte is
  kept when it is an ASCII letter or digit or one of \<open>* - . _\<close>, a space becomes \<open>+\<close>, every
  other byte becomes \<open>%XX\<close>.
\<close>

definition form_unreserved :: "char \<Rightarrow> bool" where
  "form_unreserved c =
     (let n = (of_char c :: nat)
      in (48 \<le> n \<and> n \<le> 57) \<or> (65 \<le> n \<and> n \<le> 90) \<or> (97 \<le> n \<and> n \<le> 122)
         \<or> c = CHR ''*'' \<or> c = CHR ''-'' \<or> c = CHR ''.'' \<or> c = CHR ''_'')"

definition form_encode_byte :: "char \<Rightarrow> string" where
  "form_encode_byte c =
     (if c = CHR '' '' then ''+''
      else if form_unreserved c then [c]
      else CHR ''%'' # hex2 True c)"

definition form_encode :: "string \<Rightarrow> string" where
  "form_encode s = concat (map form_encode_byte s)"

definition URLSearchParams_toString :: "(string \<times> string) list \<Rightarrow> string" where
  "URLSearchParams_toString fd = join ''&'' (map (\<lambda>(k, v). form_encode k @ ''='' @ form_encode v) fd)"

text \<open>\<open>{ "Content-Type": ..., ...config?.headers }\<close>: later properties overwrite earlier ones.\<close>

definition spread :: "(string \<times> string) list \<Rightarrow> (string \<times> string) list \<Rightarrow> (string \<times> string) list" where
  "spread base over = foldl (\<lambda>acc (k, v). AList.update k v acc) base over"

definition postForm :: "platform \<Rightarrow> HttpClient \<Rightarrow> string \<Rightarrow> (string \<times> jsval) list
    \<Rightarrow> axios_config option \<Rightarrow> jsval io" where
  "postForm pf c u data cfg =
     (let formData = postForm_formData pf data;
          g = (case cfg of None \<Rightarrow> no_config | Some g \<Rightarrow> g)
      in instance_request pf c
           \<lparr>http_method = ''POST'', url = u, body = Some (URLSearchParams_toString formData),
            config = g\<lparr>headers :=
              spread [(''Content-Type'', ''application/x-www-form-urlencoded'')] (headers g)\<rparr>\<rparr>)"


section \<open>Types of the SDK\<close>

datatype OrderSide = BUY | SELL

datatype OrderType = MARKET | LIMIT

fun OrderSide_string :: "OrderSide \<Rightarrow> string" where
  "OrderSide_string BUY = ''BUY''"
| "OrderSide_string SELL = ''SELL''"

fun OrderType_string :: "OrderType \<Rightarrow> string" where
  "OrderType_string MARKET = ''MARKET''"
| "OrderType_string LIMIT = ''LIMIT''"

text \<open>The type \<open>number | string\<close> of quantities, prices and leverage.\<close>

datatype numstr = Num jsnum | Str string

fun numstr_val :: "numstr \<Rightarrow> jsval" where
  "numstr_val (Num n) = JNum n"
| "numstr_val (Str s) = JStr s"

text \<open>Truthiness of a property that may be absent (\<open>undefined\<close>).\<close>

definition given :: "numstr option \<Rightarrow> bool" where
  "given x = (case x of None \<Rightarrow> False | Some v \<Rightarrow> truthy (numstr_val v))"

definition given_str :: "string option \<Rightarrow> bool" where
  "given_str x = (case x of None \<Rightarrow> False | Some s \<Rightarrow> s \<noteq> [])"

text \<open>
  The parameters of an order. TypeScript's types are not checked at run time and
  \<open>placeOrder\<close> tests the presence of its required fields itself, so each field may be
  absent (\<open>None\<close>).
\<close>

record PlaceOrderParams =
  symbol :: "string option"
  side :: "OrderSide option"
  orderType :: "OrderType option"
  quantity :: "numstr option"
  price :: "numstr option"
  leverage :: "numstr option"
  market :: "string option"
  reduceOnly :: "bool option"
  clientId :: "string option"
  tpTriggerPrice :: "numstr option"
  tpOrderType :: "OrderType option"
  tpOrderPrice :: "numstr option"
  slTriggerPrice :: "numstr option"
  slOrderType :: "OrderType option"
  slOrderPrice :: "numstr option"

record CancelOrderParams =
  symbol :: string
  orderHashes :: "string list option"
  parentAddress :: "string option"

text \<open>\<open>SDKResponse\<close>: \<open>{status: true, data}\<close> or \<open>{status: false, error}\<close>.\<close>

datatype SDKResponse = Success jsval | Failure jsval

text \<open>A BigNumber: not a number, an infinity (\<open>True\<close> for the positive one) or a decimal.\<close>

datatype bignumber = BigNaN | BigInf bool | BN rat

text \<open>The order object that is signed, one for each leg.\<close>

record order =
  market :: string
  creator :: string
  isLong :: bool
  reduceOnly :: bool
  postOnly :: bool
  orderbookOnly :: bool
  ioc :: bool
  quantity :: bignumber
  price :: bignumber
  leverage :: bignumber
  expiration :: bignumber
  salt :: bignumber

text \<open>
  What the SDK imports and this development takes as given: the helpers of \<open>utils\<close>
  (\<open>formatNormalToWeiBN\<close>, \<open>formatNormalToWei\<close>, \<open>signMessage\<close> with the instance's key pair
  already applied, \<open>formatError\<close>), the message format of the order-signing library, how
  bignumber.js prints a value that is not a small integer, and the endpoint table of
  \<open>constants\<close>. A helper that may throw returns a sum; \<open>formatError\<close>
  turns whatever was caught into a message.
\<close>

record collaborators =
  formatNormalToWeiBN :: "numstr \<Rightarrow> js_error + bignumber"
  formatNormalToWei :: "numstr \<Rightarrow> js_error + string"
  getOrderMessageForUIWallet :: "order \<Rightarrow> js_error + string"
  signMessage :: "string \<Rightarrow> js_error + string"
  formatError :: "js_error \<Rightarrow> string"
  BigNumber_print :: "rat \<Rightarrow> string"
  PLACE_ORDER :: string
  CANCEL_ORDER :: string
  GET_ACCOUNT_INFO :: string
  GET_POSITIONS :: string
  GET_OPEN_ORDERS :: string

record DipCoinPerpSDK =
  httpClient :: HttpClient
  walletAddress :: string

text \<open>Sequencing of steps that may throw.\<close>

definition bindE :: "js_error + 'a \<Rightarrow> ('a \<Rightarrow> js_error + 'b) \<Rightarrow> js_error + 'b" where
  "bindE m f = (case m of Inl e \<Rightarrow> Inl e | Inr x \<Rightarrow> f x)"

text \<open>
  \<open>try { body } catch (error) { return {status: false, error: formatError(error)} }\<close>
  around a body that has sent the requests \<open>fst body\<close>. The result is again a sum: \<open>Inl\<close>
  would be an exception that leaves the operation.
\<close>

definition try_catch :: "collaborators \<Rightarrow> SDKResponse io \<Rightarrow> SDKResponse io" where
  "try_catch co b =
     (fst b, case snd b of
               Inl e \<Rightarrow> Inr (Failure (JStr (formatError co e)))
             | Inr r \<Rightarrow> Inr r)"

text \<open>
  The end of \<open>placeOrder\<close> and \<open>cancelOrder\<close>: \<open>response.code === 200\<close> is success and hands
  the whole response back, anything else is a failure with the server's message or the
  operation's fallback.
\<close>

definition is_200 :: "jsval \<Rightarrow> bool" where
  "is_200 v = (v = JNum (JFinite 200))"

definition order_result :: "string \<Rightarrow> jsval \<Rightarrow> js_error + SDKResponse" where
  "order_result fallback resp =
     bindE (get_prop resp ''code'') (\<lambda>code.
       if is_200 code then Inr (Success resp)
       else bindE (get_prop resp ''message'') (\<lambda>msg. Inr (Failure (js_or msg (JStr fallback)))))"


section \<open>placeOrder\<close>

definition with_default :: "'a \<Rightarrow> 'a option \<Rightarrow> 'a" where
  "with_default d x = (case x of None \<Rightarrow> d | Some v \<Rightarrow> v)"

text \<open>\<open>a || b\<close> for a (defaulted) order price and a trigger price.\<close>

definition or_else :: "numstr \<Rightarrow> numstr \<Rightarrow> numstr" where
  "or_else a b = (if truthy (numstr_val a) then a else b)"

text \<open>
  \<open>toString()\<close> of a BigNumber. An integer below \<open>1e21\<close> in magnitude prints as its decimal
  digits (every salt is one: \<open>Date.now()\<close> is an integral time value of at most \<open>8.64e15\<close>
  in magnitude, so that adding 1 or 2 to it is exact as well).
\<close>

definition BigNumber_toString :: "collaborators \<Rightarrow> bignumber \<Rightarrow> string" where
  "BigNumber_toString co b =
     (case b of
        BigNaN \<Rightarrow> ''NaN''
      | BigInf pos \<Rightarrow> (if pos then ''Infinity'' else ''-Infinity'')
      | BN r \<Rightarrow> (if of_int \<lfloor>r\<rfloor> = r \<and> \<bar>r\<bar> < 10 ^ 21 then int_toString \<lfloor>r\<rfloor>
                 else BigNumber_print co r))"

text \<open>
  The two presence tests at the head of \<open>placeOrder\<close>, as written; past them the required
  fields are there and are handed on (the last branch is never taken).
\<close>

definition placeOrder_validate
    :: "PlaceOrderParams \<Rightarrow> js_error + (string \<times> OrderSide \<times> OrderType \<times> numstr \<times> numstr)" where
  "placeOrder_validate p =
     (if \<not> given_str (PlaceOrderParams.symbol p) \<or> side p = None \<or> orderType p = None
         \<or> \<not> given (PlaceOrderParams.quantity p) \<or> \<not> given (PlaceOrderParams.leverage p)
      then Inl (Error ''Missing required order parameters'')
      else if orderType p = Some LIMIT \<and> \<not> given (PlaceOrderParams.price p)
      then Inl (Error ''Price is required for LIMIT orders'')
      else (case (PlaceOrderParams.symbol p, side p, orderType p,
                  PlaceOrderParams.quantity p, PlaceOrderParams.leverage p) of
              (Some smb, Some sd, Some ot, Some q, Some lev) \<Rightarrow> Inr (smb, sd, ot, q, lev)
            | _ \<Rightarrow> Inl (Error ''Missing required order parameters'')))"

text \<open>\<open>price ? formatNormalToWeiBN(price) : new BigNumber(0)\<close>.\<close>

definition priceBN_of :: "collaborators \<Rightarrow> numstr option \<Rightarrow> js_error + bignumber" where
  "priceBN_of co x =
     (case x of
        None \<Rightarrow> Inr (BN 0)
      | Some v \<Rightarrow> if truthy (numstr_val v) then formatNormalToWeiBN co v else Inr (BN 0))"

text \<open>
  The three order objects, in the order the code builds them. The clock is read once for
  each leg that is built: \<open>Date.now()\<close> for the main order, \<open>Date.now() + 1\<close> for the
  take-profit leg, \<open>Date.now() + 2\<close> for the stop-loss leg; \<open>n\<close> below counts the readings
  that came before.
\<close>

definition main_order
    :: "DipCoinPerpSDK \<Rightarrow> PlaceOrderParams \<Rightarrow> string \<Rightarrow> OrderSide \<Rightarrow> OrderType
        \<Rightarrow> bignumber \<Rightarrow> bignumber \<Rightarrow> bignumber \<Rightarrow> bignumber \<Rightarrow> bignumber \<Rightarrow> order" where
  "main_order sdk p smb sd ot priceBN quantityBN leverageBN expirationBN saltBN =
     \<lparr>market = (if given_str (PlaceOrderParams.market p)
                 then with_default smb (PlaceOrderParams.market p) else smb),
      creator = DipCoinPerpSDK.walletAddress sdk,
      isLong = (sd = BUY),
      reduceOnly = with_default False (PlaceOrderParams.reduceOnly p),
      postOnly = False,
      orderbookOnly = True,
      ioc = False,
      quantity = quantityBN,
      price = (if ot = LIMIT then priceBN else BN 0),
      leverage = leverageBN,
      expiration = expirationBN,
      salt = saltBN\<rparr>"

definition tp_order
    :: "collaborators \<Rightarrow> platform \<Rightarrow> DipCoinPerpSDK \<Rightarrow> PlaceOrderParams \<Rightarrow> order
        \<Rightarrow> bignumber \<Rightarrow> bignumber \<Rightarrow> bignumber \<Rightarrow> nat \<Rightarrow> js_error + order option" where
  "tp_order co pf sdk p mainOrder quantityBN leverageBN expirationBN n =
     (let tpOrderType' = with_default MARKET (tpOrderType p);
          tpOrderPrice' = with_default (Str []) (tpOrderPrice p)
      in case tpTriggerPrice p of
           None \<Rightarrow> Inr None
         | Some tpTrig \<Rightarrow>
             if truthy (numstr_val tpTrig) then
               (let tpSalt = BN (of_int (Date_now pf n + 1))
                in bindE (if tpOrderType' = LIMIT
                          then formatNormalToWeiBN co (or_else tpOrderPrice' tpTrig)
                          else Inr (BN 0)) (\<lambda>tpPrice.
                     Inr (Some \<lparr>market = market mainOrder,
                                creator = DipCoinPerpSDK.walletAddress sdk,
                                isLong = (\<not> isLong mainOrder),
                                reduceOnly = True,
                                postOnly = False,
                                orderbookOnly = True,
                                ioc = False,
                                quantity = quantityBN,
                                price = tpPrice,
                                leverage = leverageBN,
                                expiration = expirationBN,
                                salt = tpSalt\<rparr>)))
             else Inr None)"

definition sl_order
    :: "collaborators \<Rightarrow> platform \<Rightarrow> DipCoinPerpSDK \<Rightarrow> PlaceOrderParams \<Rightarrow> order
        \<Rightarrow> bignumber \<Rightarrow> bignumber \<Rightarrow> bignumber \<Rightarrow> nat \<Rightarrow> js_error + order option" where
  "sl_order co pf sdk p mainOrder quantityBN leverageBN expirationBN n =
     (let slOrderType' = with_default MARKET (slOrderType p);
          slOrderPrice' = with_default (Str []) (slOrderPrice p)
      in case slTriggerPrice p of
           None \<Rightarrow> Inr None
         | Some slTrig \<Rightarrow>
             if truthy (numstr_val slTrig) then
               (let slSalt = BN (of_int (Date_now pf n + 2))
                in bindE (if slOrderType' = LIMIT
                          then formatNormalToWeiBN co (or_else slOrderPrice' slTrig)
                          else Inr (BN 0)) (\<lambda>slPrice.
                     Inr (Some \<lparr>market = market mainOrder,
                                creator = DipCoinPerpSDK.walletAddress sdk,
                                isLong = (\<not> isLong mainOrder),
                                reduceOnly = True,
                                postOnly = False,
                                orderbookOnly = True,
                                ioc = False,
                                quantity = quantityBN,
                                price = slPrice,
                                leverage = leverageBN,
                                expiration = expirationBN,
                                salt = slSalt\<rparr>)))
             else Inr None)"

definition placeOrder_orders
    :: "collaborators \<Rightarrow> platform \<Rightarrow> DipCoinPerpSDK \<Rightarrow> PlaceOrderParams
        \<Rightarrow> string \<times> OrderSide \<times> OrderType \<times> numstr \<times> numstr
        \<Rightarrow> js_error + (order \<times> order option \<times> order option)" where
  "placeOrder_orders co pf sdk p = (\<lambda>(smb, sd, ot, q, lev).
     bindE (priceBN_of co (PlaceOrderParams.price p)) (\<lambda>priceBN.
     bindE (formatNormalToWeiBN co q) (\<lambda>quantityBN.
     bindE (formatNormalToWeiBN co lev) (\<lambda>leverageBN.
       let expirationBN = BN 0;
           saltBN = BN (of_int (Date_now pf 0));
           mainOrder = main_order sdk p smb sd ot priceBN quantityBN leverageBN expirationBN saltBN
       in
       bindE (tp_order co pf sdk p mainOrder quantityBN leverageBN expirationBN 1) (\<lambda>tpOrder.
       bindE (sl_order co pf sdk p mainOrder quantityBN leverageBN expirationBN
                (if tpOrder = None then 1 else 2)) (\<lambda>slOrder.
         Inr (mainOrder, tpOrder, slOrder)))))))"

text \<open>
  Signing a leg: the message of the order-signing library, encoded to bytes (the bytes of
  a string are the string here), signed with the instance's key pair.
\<close>

definition sign_order :: "collaborators \<Rightarrow> order \<Rightarrow> js_error + string" where
  "sign_order co x = bindE (getOrderMessageForUIWallet co x) (\<lambda>orderMsg. signMessage co orderMsg)"

definition sign_leg :: "collaborators \<Rightarrow> order option \<Rightarrow> js_error + string option" where
  "sign_leg co x =
     (case x of
        None \<Rightarrow> Inr None
      | Some leg \<Rightarrow> bindE (sign_order co leg) (\<lambda>s. Inr (Some s)))"

definition placeOrder_signatures
    :: "collaborators \<Rightarrow> order \<times> order option \<times> order option
        \<Rightarrow> js_error + (string \<times> string option \<times> string option)" where
  "placeOrder_signatures co = (\<lambda>(mainOrder, tpOrder, slOrder).
     bindE (sign_order co mainOrder) (\<lambda>orderSignature.
     bindE (sign_leg co tpOrder) (\<lambda>tpOrderSignature.
     bindE (sign_leg co slOrder) (\<lambda>slOrderSignature.
       Inr (orderSignature, tpOrderSignature, slOrderSignature)))))"

text \<open>\<open>salt?.toString()\<close> of a leg that may be \<open>null\<close>.\<close>

definition salt_field :: "collaborators \<Rightarrow> order option \<Rightarrow> jsval" where
  "salt_field co x =
     (case x of None \<Rightarrow> JUndefined | Some leg \<Rightarrow> JStr (BigNumber_toString co (salt leg)))"

text \<open>
  The request parameters. An object literal lists its properties in the order written;
  an assignment to a new property adds it at the end (\<open>AList.update\<close>).
\<close>

definition main_params
    :: "collaborators \<Rightarrow> DipCoinPerpSDK \<Rightarrow> PlaceOrderParams \<Rightarrow> string \<Rightarrow> OrderSide \<Rightarrow> OrderType
        \<Rightarrow> string \<Rightarrow> string \<Rightarrow> string \<Rightarrow> order \<Rightarrow> string \<Rightarrow> (string \<times> jsval) list" where
  "main_params co sdk p smb sd ot quantityStr priceStr leverageStr mainOrder orderSignature =
     [(''symbol'', JStr smb),
      (''side'', JStr (OrderSide_string sd)),
      (''orderType'', JStr (OrderType_string ot)),
      (''quantity'', JStr quantityStr),
      (''price'', JStr priceStr),
      (''leverage'', JStr leverageStr),
      (''salt'', JStr (BigNumber_toString co (salt mainOrder))),
      (''creator'', JStr (DipCoinPerpSDK.walletAddress sdk)),
      (''clientId'', JStr (with_default [] (clientId p))),
      (''reduceOnly'',
         JStr (if with_default False (PlaceOrderParams.reduceOnly p) then ''true'' else ''false'')),
      (''orderSignature'', JStr orderSignature)]"

definition add_tp_params
    :: "collaborators \<Rightarrow> PlaceOrderParams \<Rightarrow> order option \<Rightarrow> string option
        \<Rightarrow> (string \<times> jsval) list \<Rightarrow> js_error + (string \<times> jsval) list" where
  "add_tp_params co p tpOrder tpOrderSignature requestParams =
     (let tpOrderType' = with_default MARKET (tpOrderType p);
          tpOrderPrice' = with_default (Str []) (tpOrderPrice p)
      in case (tpTriggerPrice p, tpOrderSignature) of
           (Some tpTrig, Some tpSig) \<Rightarrow>
             if truthy (numstr_val tpTrig) \<and> tpSig \<noteq> [] then
               bindE (formatNormalToWei co tpTrig) (\<lambda>trigStr.
               bindE (if tpOrderType' = LIMIT
                      then formatNormalToWei co (or_else tpOrderPrice' tpTrig)
                      else Inr []) (\<lambda>tpPriceStr.
                 Inr (AList.update ''triggerWay'' (JStr ''oracle'')
                     (AList.update ''tpSalt'' (salt_field co tpOrder)
                     (AList.update ''tpOrderPrice'' (JStr tpPriceStr)
                     (AList.update ''tpOrderType'' (JStr (OrderType_string tpOrderType'))
                     (AList.update ''tpTriggerPrice'' (JStr trigStr)
                     (AList.update ''tpOrderSignature'' (JStr tpSig) requestParams))))))))
             else Inr requestParams
         | _ \<Rightarrow> Inr requestParams)"

definition add_sl_params
    :: "collaborators \<Rightarrow> PlaceOrderParams \<Rightarrow> order option \<Rightarrow> string option
        \<Rightarrow> (string \<times> jsval) list \<Rightarrow> js_error + (string \<times> jsval) list" where
  "add_sl_params co p slOrder slOrderSignature requestParams =
     (let slOrderType' = with_default MARKET (slOrderType p);
          slOrderPrice' = with_default (Str []) (slOrderPrice p)
      in case (slTriggerPrice p, slOrderSignature) of
           (Some slTrig, Some slSig) \<Rightarrow>
             if truthy (numstr_val slTrig) \<and> slSig \<noteq> [] then
               bindE (formatNormalToWei co slTrig) (\<lambda>trigStr.
               bindE (if slOrderType' = LIMIT
                      then formatNormalToWei co (or_else slOrderPrice' slTrig)
                      else Inr []) (\<lambda>slPriceStr.
                 Inr (AList.update ''slSalt'' (salt_field co slOrder)
                     (AList.update ''slOrderPrice'' (JStr slPriceStr)
                     (AList.update ''slOrderType'' (JStr (OrderType_string slOrderType'))
                     (AList.update ''slTriggerPrice'' (JStr trigStr)
                     (AList.update ''slOrderSignature'' (JStr slSig) requestParams)))))))
             else Inr requestParams
         | _ \<Rightarrow> Inr requestParams)"

text \<open>\<open>orderType === OrderType.LIMIT && price ? formatNormalToWei(price) : ""\<close>.\<close>

definition price_field :: "collaborators \<Rightarrow> OrderType \<Rightarrow> numstr option \<Rightarrow> js_error + string" where
  "price_field co ot x =
     (case x of
        None \<Rightarrow> Inr []
      | Some pr \<Rightarrow> if ot = LIMIT \<and> truthy (numstr_val pr) then formatNormalToWei co pr else Inr [])"

definition placeOrder_requestParams
    :: "collaborators \<Rightarrow> DipCoinPerpSDK \<Rightarrow> PlaceOrderParams
        \<Rightarrow> string \<times> OrderSide \<times> OrderType \<times> numstr \<times> numstr
        \<Rightarrow> order \<times> order option \<times> order option
        \<Rightarrow> string \<times> string option \<times> string option
        \<Rightarrow> js_error + (string \<times> jsval) list" where
  "placeOrder_requestParams co sdk p = (\<lambda>(smb, sd, ot, q, lev) (mainOrder, tpOrder, slOrder)
       (orderSignature, tpOrderSignature, slOrderSignature).
     bindE (formatNormalToWei co q) (\<lambda>quantityStr.
     bindE (price_field co ot (PlaceOrderParams.price p)) (\<lambda>priceStr.
     bindE (formatNormalToWei co lev) (\<lambda>leverageStr.
     bindE (add_tp_params co p tpOrder tpOrderSignature
              (main_params co sdk p smb sd ot quantityStr priceStr leverageStr mainOrder orderSignature))
       (\<lambda>requestParams.
     bindE (add_sl_params co p slOrder slOrderSignature requestParams) (\<lambda>requestParams.
       Inr requestParams))))))"

text \<open>The legs that a call builds: validation, then the three order objects.\<close>

definition placeOrder_built
    :: "collaborators \<Rightarrow> platform \<Rightarrow> DipCoinPerpSDK \<Rightarrow> PlaceOrderParams
        \<Rightarrow> js_error + (order \<times> order option \<times> order option)" where
  "placeOrder_built co pf sdk p = bindE (placeOrder_validate p) (placeOrder_orders co pf sdk p)"

text \<open>Everything before the request: the form fields that are about to be posted.\<close>

definition placeOrder_payload
    :: "collaborators \<Rightarrow> platform \<Rightarrow> DipCoinPerpSDK \<Rightarrow> PlaceOrderParams
        \<Rightarrow> js_error + (string \<times> jsval) list" where
  "placeOrder_payload co pf sdk p =
     bindE (placeOrder_validate p) (\<lambda>v.
     bindE (placeOrder_orders co pf sdk p v) (\<lambda>legs.
     bindE (placeOrder_signatures co legs) (\<lambda>sigs.
       placeOrder_requestParams co sdk p v legs sigs)))"

definition placeOrder_try
    :: "collaborators \<Rightarrow> platform \<Rightarrow> DipCoinPerpSDK \<Rightarrow> PlaceOrderParams \<Rightarrow> SDKResponse io" where
  "placeOrder_try co pf sdk p =
     (case placeOrder_payload co pf sdk p of
        Inl e \<Rightarrow> ([], Inl e)
      | Inr requestParams \<Rightarrow>
          (let r = postForm pf (httpClient sdk) (PLACE_ORDER co) requestParams None
           in (fst r, bindE (snd r) (order_result ''Failed to place order''))))"

definition placeOrder
    :: "collaborators \<Rightarrow> platform \<Rightarrow> DipCoinPerpSDK \<Rightarrow> PlaceOrderParams \<Rightarrow> SDKResponse io" where
  "placeOrder co pf sdk p = try_catch co (placeOrder_try co pf sdk p)"


section \<open>cancelOrder\<close>

definition hashes_val :: "string list \<Rightarrow> jsval" where
  "hashes_val hs = JArr (map JStr hs)"

definition cancelOrder_try
    :: "collaborators \<Rightarrow> platform \<Rightarrow> DipCoinPerpSDK \<Rightarrow> CancelOrderParams \<Rightarrow> SDKResponse io" where
  "cancelOrder_try co pf sdk p =
     (let symbol' = CancelOrderParams.symbol p;
          parentAddress' = with_default (DipCoinPerpSDK.walletAddress sdk) (parentAddress p)
      in case orderHashes p of
           None \<Rightarrow> ([], Inl (Error ''Order hashes are required''))
         | Some hs \<Rightarrow>
             if length hs = 0 then ([], Inl (Error ''Order hashes are required''))
             else
               (let cancelOrderObj = JObj [(''orderHashes'', hashes_val hs)];
                    orderHashBytes =
                      (case JSON_stringify (Number_toString pf) cancelOrderObj of
                         Some s \<Rightarrow> s | None \<Rightarrow> [])
                in case signMessage co orderHashBytes of
                     Inl e \<Rightarrow> ([], Inl e)
                   | Inr signature \<Rightarrow>
                       (let requestParams =
                              [(''symbol'', JStr symbol'),
                               (''orderHashes'',
                                  (case JSON_stringify (Number_toString pf) (hashes_val hs) of
                                     Some s \<Rightarrow> JStr s | None \<Rightarrow> JUndefined)),
                               (''signature'', JStr signature),
                               (''parentAddress'', JStr parentAddress')];
                            r = postForm pf (httpClient sdk) (CANCEL_ORDER co) requestParams None
                        in (fst r, bindE (snd r) (order_result ''Failed to cancel order'')))))"

definition cancelOrder
    :: "collaborators \<Rightarrow> platform \<Rightarrow> DipCoinPerpSDK \<Rightarrow> CancelOrderParams \<Rightarrow> SDKResponse io" where
  "cancelOrder co pf sdk p = try_catch co (cancelOrder_try co pf sdk p)"

section \<open>getAccountInfo\<close>

text \<open>One field of the account: \<open>response.data.f || "0"\<close>.\<close>

definition account_field :: "jsval \<Rightarrow> string \<Rightarrow> js_error + (string \<times> jsval)" where
  "account_field d f = bindE (get_prop d f) (\<lambda>v. Inr (f, js_or v (JStr ''0'')))"

definition account_result :: "jsval \<Rightarrow> js_error + SDKResponse" where
  "account_result resp =
     bindE (get_prop resp ''code'') (\<lambda>code.
     bindE (if is_200 code then get_prop resp ''data'' else Inr JUndefined) (\<lambda>d.
       if is_200 code \<and> truthy d then
         bindE (account_field d ''walletBalance'') (\<lambda>f1.
         bindE (account_field d ''totalUnrealizedProfit'') (\<lambda>f2.
         bindE (account_field d ''accountValue'') (\<lambda>f3.
         bindE (account_field d ''freeCollateral'') (\<lambda>f4.
         bindE (account_field d ''totalMargin'') (\<lambda>f5.
           Inr (Success (JObj [f1, f2, f3, f4, f5])))))))
       else bindE (get_prop resp ''message'') (\<lambda>msg.
              Inr (Failure (js_or msg (JStr ''Failed to get account info''))))))"

definition getAccountInfo_try :: "collaborators \<Rightarrow> platform \<Rightarrow> DipCoinPerpSDK \<Rightarrow> SDKResponse io" where
  "getAccountInfo_try co pf sdk =
     (let r = http_get pf (httpClient sdk) (GET_ACCOUNT_INFO co) None
      in (fst r, bindE (snd r) account_result))"

definition getAccountInfo :: "collaborators \<Rightarrow> platform \<Rightarrow> DipCoinPerpSDK \<Rightarrow> SDKResponse io" where
  "getAccountInfo co pf sdk = try_catch co (getAccountInfo_try co pf sdk)"

section \<open>getPositions and getOpenOrders\<close>

text \<open>\<open>const params = {}; if (symbol) { params.symbol = symbol; }\<close>\<close>

definition symbol_params :: "string option \<Rightarrow> (string \<times> jsval) list" where
  "symbol_params symbol' =
     (case symbol' of
        None \<Rightarrow> []
      | Some s \<Rightarrow> if s \<noteq> [] then AList.update ''symbol'' (JStr s) [] else [])"

text \<open>
  \<open>Array.isArray(response.data) ? response.data : response.data?.data || []\<close> on success,
  the server's message or the fallback otherwise.
\<close>

definition list_result :: "string \<Rightarrow> jsval \<Rightarrow> js_error + SDKResponse" where
  "list_result fallback resp =
     bindE (get_prop resp ''code'') (\<lambda>code.
       if is_200 code then
         bindE (get_prop resp ''data'') (\<lambda>d.
           Inr (Success (if isArray d then d else js_or (get_prop_opt d ''data'') (JArr []))))
       else bindE (get_prop resp ''message'') (\<lambda>msg. Inr (Failure (js_or msg (JStr fallback)))))"

definition getPositions_try
    :: "collaborators \<Rightarrow> platform \<Rightarrow> DipCoinPerpSDK \<Rightarrow> string option \<Rightarrow> SDKResponse io" where
  "getPositions_try co pf sdk symbol' =
     (let params' = symbol_params symbol';
          r = http_get pf (httpClient sdk) (GET_POSITIONS co) (Some \<lparr>params = params', headers = []\<rparr>)
      in (fst r, bindE (snd r) (list_result ''Failed to get positions'')))"

definition getPositions
    :: "collaborators \<Rightarrow> platform \<Rightarrow> DipCoinPerpSDK \<Rightarrow> string option \<Rightarrow> SDKResponse io" where
  "getPositions co pf sdk symbol' = try_catch co (getPositions_try co pf sdk symbol')"

definition getOpenOrders_try
    :: "collaborators \<Rightarrow> platform \<Rightarrow> DipCoinPerpSDK \<Rightarrow> string option \<Rightarrow> SDKResponse io" where
  "getOpenOrders_try co pf sdk symbol' =
     (let params' = symbol_params symbol';
          r = http_get pf (httpClient sdk) (GET_OPEN_ORDERS co) (Some \<lparr>params = params', headers = []\<rparr>)
      in (fst r, bindE (snd r) (list_result ''Failed to get open orders'')))"

definition getOpenOrders
    :: "collaborators \<Rightarrow> platform \<Rightarrow> DipCoinPerpSDK \<Rightarrow> string option \<Rightarrow> SDKResponse io" where
  "getOpenOrders co pf sdk symbol' = try_catch co (getOpenOrders_try co pf sdk symbol')"


section \<open>The form body in the specification's words\<close>

text \<open>
  What the specification says \<open>postForm\<close> serialises: the fields whose value is neither
  \<open>undefined\<close> nor \<open>null\<close>, a structured value as its JSON text and a scalar as its string.
\<close>

definition spec_form_value :: "platform \<Rightarrow> jsval \<Rightarrow> string" where
  "spec_form_value pf v =
     (if typeof_object v
      then (case JSON_stringify (Number_toString pf) v of Some s \<Rightarrow> s | None \<Rightarrow> ''undefined'')
      else js_String (Number_toString pf) v)"

definition spec_form_fields :: "platform \<Rightarrow> (string \<times> jsval) list \<Rightarrow> (string \<times> string) list" where
  "spec_form_fields pf data =
     map (\<lambda>(k, v). (k, spec_form_value pf v))
         (filter (\<lambda>(k, v). v \<noteq> JUndefined \<and> v \<noteq> JNull) data)"

section \<open>An instance for concrete runs\<close>

text \<open>
  Modelled from the spec: \<open>utils\<close>, \<open>constants\<close> and the order-signing library are not
  among the sources. Section 4.2 of the specification describes the numeric helpers as
  scaling a decimal by a fixed power of ten; the instance below scales by \<open>10^18\<close>, reads
  decimal strings of the form \<open>digits[.digits]\<close>, and signs by prefixing the message. It
  serves the concrete runs only: every theorem below is proved for arbitrary
  collaborators and an arbitrary platform.
\<close>

definition digit_of :: "char \<Rightarrow> nat option" where
  "digit_of c = (let n = (of_char c :: nat) in if 48 \<le> n \<and> n \<le> 57 then Some (n - 48) else None)"

fun digits_value :: "nat \<Rightarrow> string \<Rightarrow> nat option" where
  "digits_value acc [] = Some acc"
| "digits_value acc (c # cs) =
     (case digit_of c of None \<Rightarrow> None | Some d \<Rightarrow> digits_value (10 * acc + d) cs)"

definition parse_decimal :: "string \<Rightarrow> rat option" where
  "parse_decimal s =
     (let ip = takeWhile (\<lambda>c. c \<noteq> CHR ''.'') s;
          fp = drop 1 (dropWhile (\<lambda>c. c \<noteq> CHR ''.'') s)
      in if ip = [] then None
         else (case (digits_value 0 ip, digits_value 0 fp) of
                 (Some a, Some b) \<Rightarrow> Some (of_nat a + of_nat b / 10 ^ length fp)
               | _ \<Rightarrow> None))"

definition demo_wei :: "numstr \<Rightarrow> js_error + rat" where
  "demo_wei v =
     (case v of
        Num (JFinite r) \<Rightarrow> Inr (r * 10 ^ 18)
      | Num _ \<Rightarrow> Inl (Error ''Invalid number'')
      | Str s \<Rightarrow> (case parse_decimal s of
                    Some r \<Rightarrow> Inr (r * 10 ^ 18)
                  | None \<Rightarrow> Inl (Error ''Invalid number'')))"

definition demo_message :: "js_error \<Rightarrow> string" where
  "demo_message e = (case e of Error m \<Rightarrow> m | TypeError m \<Rightarrow> m)"

definition demo_collaborators :: collaborators where
  "demo_collaborators =
     \<lparr>formatNormalToWeiBN = (\<lambda>v. bindE (demo_wei v) (\<lambda>r. Inr (BN r))),
      formatNormalToWei = (\<lambda>v. bindE (demo_wei v) (\<lambda>r. Inr (int_toString \<lfloor>r\<rfloor>))),
      getOrderMessageForUIWallet = (\<lambda>x. Inr (creator x @ ''/'' @ order.market x)),
      signMessage = (\<lambda>m. Inr (''signed:'' @ m)),
      formatError = demo_message,
      BigNumber_print = (\<lambda>r. ''?''),
      PLACE_ORDER = ''/place-order'',
      CANCEL_ORDER = ''/cancel-order'',
      GET_ACCOUNT_INFO = ''/account'',
      GET_POSITIONS = ''/positions'',
      GET_OPEN_ORDERS = ''/open-orders''\<rparr>"

text \<open>A platform whose clock reads \<open>clock i\<close> at the \<open>i\<close>-th reading and whose server answers \<open>resp\<close>.\<close>

definition demo_platform :: "(nat \<Rightarrow> int) \<Rightarrow> jsval \<Rightarrow> platform" where
  "demo_platform clock resp =
     \<lparr>Number_toString = (\<lambda>r. int_toString \<lfloor>r\<rfloor>),
      Date_now = clock,
      adapter = (\<lambda>r. Inr resp)\<rparr>"

definition demo_sdk :: DipCoinPerpSDK where
  "demo_sdk =
     \<lparr>httpClient = \<lparr>baseURL = ''https://demoapi.dipcoin.io/exchange'',
                     HttpClient.walletAddress = Some ''0xme'', authToken = None\<rparr>,
      DipCoinPerpSDK.walletAddress = ''0xme''\<rparr>"

text \<open>The intent of the specification's end-to-end scenario.\<close>

definition market_buy :: PlaceOrderParams where
  "market_buy =
     \<lparr>PlaceOrderParams.symbol = Some ''BTC-PERP'', side = Some BUY, orderType = Some MARKET,
      PlaceOrderParams.quantity = Some (Str ''0.01''), PlaceOrderParams.price = None,
      PlaceOrderParams.leverage = Some (Str ''10''), PlaceOrderParams.market = Some ''0xabc'',
      PlaceOrderParams.reduceOnly = None, clientId = None,
      tpTriggerPrice = None, tpOrderType = None, tpOrderPrice = None,
      slTriggerPrice = None, slOrderType = None, slOrderPrice = None\<rparr>"


section \<open>Notions used in the statements\<close>

text \<open>The five fields of the account, in the order \<open>getAccountInfo\<close> lists them.\<close>

definition account_fields :: "string list" where
  "account_fields =
     [''walletBalance'', ''totalUnrealizedProfit'', ''accountValue'', ''freeCollateral'', ''totalMargin'']"

text \<open>The JSON text of a list of strings, and of \<open>{orderHashes: [...]}\<close>, the message that is signed.\<close>

definition json_string_array :: "string list \<Rightarrow> string" where
  "json_string_array hs = ''['' @ join '','' (map json_quote hs) @ '']''"

definition cancel_message :: "string list \<Rightarrow> string" where
  "cancel_message hs = ''{'' @ json_quote ''orderHashes'' @ '':'' @ json_string_array hs @ ''}''"

text \<open>The first presence test of \<open>placeOrder\<close>.\<close>

definition missing_required :: "PlaceOrderParams \<Rightarrow> bool" where
  "missing_required p =
     (\<not> given_str (PlaceOrderParams.symbol p) \<or> side p = None \<or> orderType p = None
      \<or> \<not> given (PlaceOrderParams.quantity p) \<or> \<not> given (PlaceOrderParams.leverage p))"

text \<open>An operation ended with a tagged result, not with an exception.\<close>

definition tagged :: "js_error + SDKResponse \<Rightarrow> bool" where
  "tagged r = ((\<exists>d. r = Inr (Success d)) \<or> (\<exists>m. r = Inr (Failure m)))"

text \<open>The salts of the legs that were built.\<close>

definition salts :: "js_error + (order \<times> order option \<times> order option)
    \<Rightarrow> (bignumber \<times> bignumber option \<times> bignumber option) option" where
  "salts r =
     (case r of
        Inl e \<Rightarrow> None
      | Inr (m, tpo, slo) \<Rightarrow> Some (salt m, map_option salt tpo, map_option salt slo))"

definition demo_form :: "(string \<times> jsval) list" where
  "demo_form =
     [(''symbol'', JStr ''BTC-PERP''),
      (''clientId'', JUndefined),
      (''note'', JNull),
      (''ids'', JArr [JStr ''a b'', JStr ''c'']),
      (''reduceOnly'', JBool True),
      (''count'', JNum (JFinite 3))]"

text \<open>The scenario's intent with a take-profit trigger price of \<open>0\<close>.\<close>

definition zero_trigger_buy :: PlaceOrderParams where
  "zero_trigger_buy = market_buy\<lparr>tpTriggerPrice := Some (Num (JFinite 0))\<rparr>"

text \<open>The scenario's intent with both trigger prices, the take-profit leg a LIMIT order.\<close>

definition bracket_buy :: PlaceOrderParams where
  "bracket_buy =
     market_buy\<lparr>tpTriggerPrice := Some (Str ''70000''), tpOrderType := Some LIMIT,
                slTriggerPrice := Some (Str ''50000'')\<rparr>"

text \<open>A clock that stands still, and one that ticks after the first reading.\<close>

definition steady_clock :: "nat \<Rightarrow> int" where
  "steady_clock i = 1700000000000"

definition ticking_clock :: "nat \<Rightarrow> int" where
  "ticking_clock i = (if i = 0 then 1700000000000 else 1700000000001)"

text \<open>The orders that the instance builds from the scenario's intent.\<close>

definition demo_main_order :: "int \<Rightarrow> order" where
  "demo_main_order t =
     \<lparr>market = ''0xabc'', creator = ''0xme'', isLong = True, reduceOnly = False,
      postOnly = False, orderbookOnly = True, ioc = False,
      quantity = BN 10000000000000000, price = BN 0, leverage = BN 10000000000000000000,
      expiration = BN 0, salt = BN (of_int t)\<rparr>"

definition demo_leg :: "rat \<Rightarrow> int \<Rightarrow> order" where
  "demo_leg legPrice t =
     \<lparr>market = ''0xabc'', creator = ''0xme'', isLong = False, reduceOnly = True,
      postOnly = False, orderbookOnly = True, ioc = False,
      quantity = BN 10000000000000000, price = BN legPrice, leverage = BN 10000000000000000000,
      expiration = BN 0, salt = BN (of_int t)\<rparr>"

text \<open>Intents that fail the presence tests although every field is supplied.\<close>

definition zero_quantity_buy :: PlaceOrderParams where
  "zero_quantity_buy = market_buy\<lparr>PlaceOrderParams.quantity := Some (Num (JFinite 0))\<rparr>"

definition empty_price_limit :: PlaceOrderParams where
  "empty_price_limit = market_buy\<lparr>orderType := Some LIMIT, PlaceOrderParams.price := Some (Str [])\<rparr>"

text \<open>A cancellation of two orders, and one of none.\<close>

definition cancel_two :: CancelOrderParams where
  "cancel_two =
     \<lparr>CancelOrderParams.symbol = ''BTC-PERP'', orderHashes = Some [''0xaa'', ''0xbb''],
      parentAddress = None\<rparr>"

definition cancel_none :: CancelOrderParams where
  "cancel_none = cancel_two\<lparr>orderHashes := Some []\<rparr>"

text \<open>A signer that rejects every message, and a platform whose requests time out.\<close>

definition failing_signer :: collaborators where
  "failing_signer = demo_collaborators\<lparr>signMessage := (\<lambda>m. Inl (Error ''invalid key''))\<rparr>"

definition offline_platform :: platform where
  "offline_platform =
     (demo_platform steady_clock JNull)
       \<lparr>adapter := (\<lambda>r. Inl \<lparr>response = JUndefined, message = JStr ''timeout of 30000ms exceeded''\<rparr>)\<rparr>"

text \<open>Answers of the server: a list of positions, bare and wrapped; an account; no data.\<close>

definition demo_positions :: "jsval list" where
  "demo_positions = [JObj [(''symbol'', JStr ''BTC-PERP''), (''side'', JStr ''LONG'')]]"

definition bare_answer :: jsval where
  "bare_answer = JObj [(''code'', JNum (JFinite 200)), (''data'', JArr demo_positions)]"

definition wrapped_answer :: jsval where
  "wrapped_answer =
     JObj [(''code'', JNum (JFinite 200)),
           (''data'', JObj [(''data'', JArr demo_positions), (''total'', JNum (JFinite 1))])]"

definition account_answer :: jsval where
  "account_answer =
     JObj [(''code'', JNum (JFinite 200)),
           (''data'', JObj [(''walletBalance'', JStr ''12.5''), (''accountValue'', JStr ''20'')])]"

definition no_data_answer :: jsval where
  "no_data_answer = JObj [(''code'', JNum (JFinite 200))]"

section \<open>Basic facts\<close>

lemma bindE_simps [simp]: "bindE (Inl e) f = Inl e" "bindE (Inr x) f = f x"
  by (simp_all add: bindE_def)

lemma bindE_Inr_iff: "bindE m f = Inr y \<longleftrightarrow> (\<exists>x. m = Inr x \<and> f x = Inr y)"
  by (cases m) simp_all

lemma try_catch_returns: "\<exists>r. snd (try_catch co b) = Inr r"
  by (cases "snd b") (simp_all add: try_catch_def)

lemma json_elems_strings: "json_elems shw (map JStr hs) = map json_quote hs"
  by (induction hs) simp_all

lemma json_of_object: "typeof_object v \<Longrightarrow> v \<noteq> JNull \<Longrightarrow> JSON_stringify shw v \<noteq> None"
  by (cases v) (simp_all add: JSON_stringify_def)

text \<open>The loop of \<open>postForm\<close>, started on any form and run over any part of the keys.\<close>

lemma postForm_fold:
  assumes "distinct (map fst data)" "set xs \<subseteq> set data"
  shows "foldl (postForm_step pf data) acc (map fst xs) = acc @ spec_form_fields pf xs"
  using assms(2)
proof (induction xs arbitrary: acc)
  case Nil
  then show ?case by (simp add: spec_form_fields_def)
next
  case (Cons x xs)
  obtain k v where x: "x = (k, v)" by (cases x)
  with Cons.prems have "(k, v) \<in> set data" by simp
  with assms(1) have look: "own_prop data k = v"
    by (simp add: own_prop_def)
  from Cons.prems have sub: "set xs \<subseteq> set data" by simp
  show ?case
    using Cons.IH [OF sub] look
    by (simp add: x postForm_step_def form_append_def Let_def spec_form_fields_def spec_form_value_def)
qed

lemma postForm_formData_spec:
  "distinct (map fst data) \<Longrightarrow> postForm_formData pf data = spec_form_fields pf data"
  using postForm_fold [of data data pf "[]"] by (simp add: postForm_formData_def Object_keys_def)

lemma postForm_sent:
  "map body (fst (postForm pf c u data cfg)) =
     [Some (URLSearchParams_toString (postForm_formData pf data))]"
  by (simp add: postForm_def instance_request_def request_interceptor_def Let_def)

text \<open>Unfolding for the concrete runs.\<close>

lemmas text_defs = JSON_stringify_def json_quote_def json_escape_def join_def
  URLSearchParams_toString_def form_encode_def form_encode_byte_def form_unreserved_def
  hex2_def hex_digit_def digit_char_def char_of_def bit_Suc_0_iff int_toString_def nat_digits.simps

lemma http_get_run:
  "http_get pf c u cfg =
     ([request_interceptor c \<lparr>http_method = ''GET'', url = u, body = None,
          config = (case cfg of None \<Rightarrow> no_config | Some g \<Rightarrow> g)\<rparr>],
      case adapter pf (request_interceptor c \<lparr>http_method = ''GET'', url = u, body = None,
          config = (case cfg of None \<Rightarrow> no_config | Some g \<Rightarrow> g)\<rparr>) of
        Inl e \<Rightarrow> Inl (response_error_interceptor pf e) | Inr b \<Rightarrow> Inr b)"
  by (simp add: http_get_def instance_request_def Let_def)

lemma getPositions_reply:
  assumes "adapter pf (hd (fst (getPositions co pf sdk s))) = Inr resp"
  shows "snd (getPositions co pf sdk s) =
         (case list_result ''Failed to get positions'' resp of
            Inl e \<Rightarrow> Inr (Failure (JStr (formatError co e))) | Inr r \<Rightarrow> Inr r)"
  using assms by (simp add: getPositions_def getPositions_try_def try_catch_def http_get_run Let_def)

lemma list_result_bare:
  assumes "map_of resp ''code'' = Some (JNum (JFinite 200))" "map_of resp ''data'' = Some (JArr xs)"
  shows "list_result fb (JObj resp) = Inr (Success (JArr xs))"
  using assms by (simp add: list_result_def is_200_def)

lemma list_result_wrapped:
  assumes "map_of resp ''code'' = Some (JNum (JFinite 200))" "map_of resp ''data'' = Some (JObj env)"
    "map_of env ''data'' = Some (JArr xs)"
  shows "list_result fb (JObj resp) = Inr (Success (JArr xs))"
  using assms by (simp add: list_result_def is_200_def get_prop_opt_def js_or_def)

lemma getAccountInfo_reply:
  "snd (getAccountInfo co pf sdk) =
     (case adapter pf (hd (fst (getAccountInfo co pf sdk))) of
        Inl e \<Rightarrow> Inr (Failure (JStr (formatError co (response_error_interceptor pf e))))
      | Inr resp \<Rightarrow> (case account_result resp of
            Inl e \<Rightarrow> Inr (Failure (JStr (formatError co e))) | Inr r \<Rightarrow> Inr r))"
  by (simp add: getAccountInfo_def getAccountInfo_try_def try_catch_def http_get_run Let_def split: sum.split)

lemma get_prop_truthy: "truthy d \<Longrightarrow> get_prop d f = Inr (get_prop_opt d f)"
  by (cases d) (simp_all add: get_prop_opt_def)

lemma account_result_success_iff:
  "account_result resp = Inr (Success acct) \<longleftrightarrow>
     (\<exists>d. get_prop resp ''code'' = Inr (JNum (JFinite 200)) \<and> get_prop resp ''data'' = Inr d \<and> truthy d
        \<and> acct = JObj (map (\<lambda>f. (f, js_or (get_prop_opt d f) (JStr ''0''))) account_fields))"
  by (auto simp add: account_result_def account_field_def bindE_Inr_iff is_200_def account_fields_def
      get_prop_truthy split: if_splits)

lemma account_result_no_data:
  assumes "get_prop resp ''code'' = Inr (JNum (JFinite 200))" "get_prop resp ''data'' = Inr d" "\<not> truthy d"
  shows "\<exists>msg. get_prop resp ''message'' = Inr msg
     \<and> account_result resp = Inr (Failure (js_or msg (JStr ''Failed to get account info'')))"
  using assms by (cases resp) (simp_all add: account_result_def is_200_def)

lemma validate_missing:
  "missing_required p \<Longrightarrow> placeOrder_validate p = Inl (Error ''Missing required order parameters'')"
  by (simp add: placeOrder_validate_def missing_required_def)

lemma validate_price:
  "\<not> missing_required p \<Longrightarrow> orderType p = Some LIMIT \<Longrightarrow> \<not> given (PlaceOrderParams.price p) \<Longrightarrow>
   placeOrder_validate p = Inl (Error ''Price is required for LIMIT orders'')"
  by (simp add: placeOrder_validate_def missing_required_def)

lemma placeOrder_invalid:
  "placeOrder_validate p = Inl e \<Longrightarrow> placeOrder co pf sdk p = ([], Inr (Failure (JStr (formatError co e))))"
  by (simp add: placeOrder_def placeOrder_try_def placeOrder_payload_def try_catch_def)

lemma cancel_message_json:
  "JSON_stringify shw (JObj [(''orderHashes'', hashes_val hs)]) = Some (cancel_message hs)"
  by (simp add: JSON_stringify_def hashes_val_def json_elems_strings cancel_message_def
      json_string_array_def join_def)

lemma hashes_json: "JSON_stringify shw (hashes_val hs) = Some (json_string_array hs)"
  by (simp add: JSON_stringify_def hashes_val_def json_elems_strings json_string_array_def)

lemma postForm_requests:
  "fst (postForm pf c u data cfg) =
     [request_interceptor c
        \<lparr>http_method = ''POST'', url = u,
         body = Some (URLSearchParams_toString (postForm_formData pf data)),
         config = (case cfg of None \<Rightarrow> no_config | Some g \<Rightarrow> g)
           \<lparr>headers := spread [(''Content-Type'', ''application/x-www-form-urlencoded'')]
              (headers (case cfg of None \<Rightarrow> no_config | Some g \<Rightarrow> g))\<rparr>\<rparr>]"
  by (simp add: postForm_def instance_request_def Let_def)

lemma cancel_formData:
  "postForm_formData pf
     [(''symbol'', JStr s), (''orderHashes'', JStr j), (''signature'', JStr g), (''parentAddress'', JStr a)] =
   [(''symbol'', s), (''orderHashes'', j), (''signature'', g), (''parentAddress'', a)]"
  by (simp add: postForm_formData_def Object_keys_def postForm_step_def own_prop_def form_append_def)

lemma try_catch_tagged: "tagged (snd (try_catch co b))"
proof (cases "snd b")
  case (Inl e)
  then show ?thesis by (simp add: try_catch_def tagged_def)
next
  case (Inr r)
  then show ?thesis by (cases r) (simp_all add: try_catch_def tagged_def)
qed

lemma try_catch_caught:
  "snd b = Inl e \<Longrightarrow> snd (try_catch co b) = Inr (Failure (JStr (formatError co e)))"
  by (simp add: try_catch_def)

lemma validate_Inr:
  assumes "placeOrder_validate p = Inr (smb, sd, ot, q, lev)"
  shows "PlaceOrderParams.symbol p = Some smb \<and> smb \<noteq> [] \<and> side p = Some sd \<and> orderType p = Some ot
       \<and> PlaceOrderParams.quantity p = Some q \<and> truthy (numstr_val q)
       \<and> PlaceOrderParams.leverage p = Some lev \<and> truthy (numstr_val lev)
       \<and> (ot = LIMIT \<longrightarrow> given (PlaceOrderParams.price p))"
  using assms
  by (auto simp add: placeOrder_validate_def given_def given_str_def split: if_splits option.splits)

lemma tp_order_Inr:
  assumes "tp_order co pf sdk p m qBN lBN eBN n = Inr tpo"
  shows "(tpo \<noteq> None) = given (tpTriggerPrice p)"
    and "tpo = Some leg \<Longrightarrow>
           reduceOnly leg \<and> isLong leg = (\<not> isLong m) \<and> salt leg = BN (of_int (Date_now pf n + 1))
         \<and> (\<exists>trig. tpTriggerPrice p = Some trig
              \<and> (if with_default MARKET (tpOrderType p) = LIMIT
                  then formatNormalToWeiBN co (or_else (with_default (Str []) (tpOrderPrice p)) trig)
                         = Inr (price leg)
                  else price leg = BN 0))"
  using assms
  by (auto simp add: tp_order_def given_def Let_def bindE_Inr_iff split: option.splits if_splits)

lemma sl_order_Inr:
  assumes "sl_order co pf sdk p m qBN lBN eBN n = Inr slo"
  shows "(slo \<noteq> None) = given (slTriggerPrice p)"
    and "slo = Some leg \<Longrightarrow>
           reduceOnly leg \<and> isLong leg = (\<not> isLong m) \<and> salt leg = BN (of_int (Date_now pf n + 2))
         \<and> (\<exists>trig. slTriggerPrice p = Some trig
              \<and> (if with_default MARKET (slOrderType p) = LIMIT
                  then formatNormalToWeiBN co (or_else (with_default (Str []) (slOrderPrice p)) trig)
                         = Inr (price leg)
                  else price leg = BN 0))"
  using assms
  by (auto simp add: sl_order_def given_def Let_def bindE_Inr_iff split: option.splits if_splits)

lemma built_Inr:
  assumes "placeOrder_built co pf sdk p = Inr (m, tpo, slo)"
  obtains smb sd ot q lev priceBN where
    "placeOrder_validate p = Inr (smb, sd, ot, q, lev)"
    "priceBN_of co (PlaceOrderParams.price p) = Inr priceBN"
    "formatNormalToWeiBN co q = Inr (quantity m)"
    "formatNormalToWeiBN co lev = Inr (leverage m)"
    "m = main_order sdk p smb sd ot priceBN (quantity m) (leverage m) (BN 0) (BN (of_int (Date_now pf 0)))"
    "tp_order co pf sdk p m (quantity m) (leverage m) (BN 0) 1 = Inr tpo"
    "sl_order co pf sdk p m (quantity m) (leverage m) (BN 0) (if tpo = None then 1 else 2) = Inr slo"
proof -
  from assms obtain v where v: "placeOrder_validate p = Inr v"
    and o: "placeOrder_orders co pf sdk p v = Inr (m, tpo, slo)"
    by (auto simp add: placeOrder_built_def bindE_Inr_iff)
  obtain smb sd ot q lev where vv: "v = (smb, sd, ot, q, lev)"
    by (cases v) auto
  from o [unfolded vv placeOrder_orders_def]
  obtain priceBN quantityBN leverageBN where
    pr: "priceBN_of co (PlaceOrderParams.price p) = Inr priceBN"
    and qu: "formatNormalToWeiBN co q = Inr quantityBN"
    and le: "formatNormalToWeiBN co lev = Inr leverageBN"
    and tp: "tp_order co pf sdk p
               (main_order sdk p smb sd ot priceBN quantityBN leverageBN (BN 0) (BN (of_int (Date_now pf 0))))
               quantityBN leverageBN (BN 0) 1 = Inr tpo"
    and sl: "sl_order co pf sdk p
               (main_order sdk p smb sd ot priceBN quantityBN leverageBN (BN 0) (BN (of_int (Date_now pf 0))))
               quantityBN leverageBN (BN 0) (if tpo = None then 1 else 2) = Inr slo"
    and mm: "m = main_order sdk p smb sd ot priceBN quantityBN leverageBN (BN 0) (BN (of_int (Date_now pf 0)))"
    by (auto simp add: bindE_Inr_iff Let_def)
  have qm: "quantity m = quantityBN" and lm: "leverage m = leverageBN"
    by (simp_all add: mm main_order_def)
  show thesis
    using that [of smb sd ot q lev priceBN] v vv pr qu le tp sl mm qm lm by simp
qed


lemma add_tp_params_keeps:
  assumes "add_tp_params co p tpo sg rp = Inr rp'"
  shows "map_of rp' ''price'' = map_of rp ''price''"
    and "distinct (map fst rp) \<Longrightarrow> distinct (map fst rp')"
  using assms
  by (auto simp add: add_tp_params_def Let_def bindE_Inr_iff update_conv' distinct_update
      split: option.splits if_splits)

lemma add_sl_params_keeps:
  assumes "add_sl_params co p slo sg rp = Inr rp'"
  shows "map_of rp' ''price'' = map_of rp ''price''"
    and "distinct (map fst rp) \<Longrightarrow> distinct (map fst rp')"
  using assms
  by (auto simp add: add_sl_params_def Let_def bindE_Inr_iff update_conv' distinct_update
      split: option.splits if_splits)

lemma main_params_price:
  "map_of (main_params co sdk p smb sd ot qs ps ls m sg) ''price'' = Some (JStr ps)"
  "distinct (map fst (main_params co sdk p smb sd ot qs ps ls m sg))"
  by (simp_all add: main_params_def)

lemma payload_price:
  assumes "placeOrder_payload co pf sdk p = Inr rp"
  shows "\<exists>ot ps. orderType p = Some ot \<and> price_field co ot (PlaceOrderParams.price p) = Inr ps
          \<and> map_of rp ''price'' = Some (JStr ps) \<and> distinct (map fst rp)"
proof -
  from assms obtain v legs sigs where v: "placeOrder_validate p = Inr v"
    and r: "placeOrder_requestParams co sdk p v legs sigs = Inr rp"
    by (auto simp add: placeOrder_payload_def bindE_Inr_iff)
  obtain smb sd ot q lev where vv: "v = (smb, sd, ot, q, lev)" by (cases v) auto
  obtain m tpo slo where ll: "legs = (m, tpo, slo)" by (cases legs) auto
  obtain sg tsg ssg where ss: "sigs = (sg, tsg, ssg)" by (cases sigs) auto
  from r [unfolded vv ll ss placeOrder_requestParams_def]
  obtain qs ps ls rp1 where ps: "price_field co ot (PlaceOrderParams.price p) = Inr ps"
    and t: "add_tp_params co p tpo tsg (main_params co sdk p smb sd ot qs ps ls m sg) = Inr rp1"
    and s: "add_sl_params co p slo ssg rp1 = Inr rp"
    by (auto simp add: bindE_Inr_iff)
  have "map_of rp ''price'' = Some (JStr ps)"
    using add_sl_params_keeps(1) [OF s] add_tp_params_keeps(1) [OF t] main_params_price(1) by simp
  moreover have "distinct (map fst rp)"
    using add_sl_params_keeps(2) [OF s] add_tp_params_keeps(2) [OF t] main_params_price(2) by simp
  moreover have "orderType p = Some ot"
    using validate_Inr [OF v [unfolded vv]] by simp
  ultimately show ?thesis using ps by blast
qed

text \<open>Past the two presence tests the required fields are there.\<close>

lemma validate_passes:
  assumes "\<not> missing_required p"
    and "\<not> (orderType p = Some LIMIT \<and> \<not> given (PlaceOrderParams.price p))"
  shows "\<exists>smb sd ot q lev. placeOrder_validate p = Inr (smb, sd, ot, q, lev)"
  using assms
  by (auto simp add: placeOrder_validate_def missing_required_def given_def given_str_def
      split: option.splits)

text \<open>A call that posts a form has built and signed its legs; one that fails to build them posts nothing.\<close>

lemma payload_built:
  assumes "placeOrder_payload co pf sdk p = Inr rp"
  shows "\<exists>v legs sigs. placeOrder_validate p = Inr v \<and> placeOrder_built co pf sdk p = Inr legs
           \<and> placeOrder_signatures co legs = Inr sigs
           \<and> placeOrder_requestParams co sdk p v legs sigs = Inr rp"
  using assms by (auto simp add: placeOrder_payload_def placeOrder_built_def bindE_Inr_iff)

lemma built_fails:
  assumes "placeOrder_built co pf sdk p = Inl e"
  shows "placeOrder co pf sdk p = ([], Inr (Failure (JStr (formatError co e))))"
proof (cases "placeOrder_validate p")
  case (Inl e')
  with assms show ?thesis
    by (simp add: placeOrder_built_def placeOrder_invalid)
next
  case (Inr v)
  with assms have "placeOrder_orders co pf sdk p v = Inl e"
    by (simp add: placeOrder_built_def)
  with Inr show ?thesis
    by (simp add: placeOrder_def placeOrder_try_def placeOrder_payload_def try_catch_def)
qed

section \<open>Concrete runs of the instance\<close>

lemmas demo_defs = demo_collaborators_def demo_wei_def parse_decimal_def digit_of_def demo_message_def
  demo_platform_def demo_sdk_def market_buy_def zero_trigger_buy_def bracket_buy_def
  steady_clock_def ticking_clock_def demo_main_order_def demo_leg_def zero_quantity_buy_def
  empty_price_limit_def cancel_two_def cancel_none_def failing_signer_def offline_platform_def

lemmas build_defs = placeOrder_built_def placeOrder_validate_def placeOrder_orders_def main_order_def
  tp_order_def sl_order_def priceBN_of_def given_def given_str_def with_default_def or_else_def Let_def

lemma demo_built_market:
  "placeOrder_built demo_collaborators (demo_platform steady_clock JNull) demo_sdk market_buy =
     Inr (demo_main_order 1700000000000, None, None)"
  by (simp add: build_defs demo_defs)

lemma demo_built_zero_trigger:
  "placeOrder_built demo_collaborators (demo_platform steady_clock JNull) demo_sdk zero_trigger_buy =
     Inr (demo_main_order 1700000000000, None, None)"
  by (simp add: build_defs demo_defs)

lemma demo_built_bracket:
  "placeOrder_built demo_collaborators (demo_platform clk JNull) demo_sdk bracket_buy =
     Inr (demo_main_order (clk 0),
          Some (demo_leg 70000000000000000000000 (clk 1 + 1)),
          Some (demo_leg 0 (clk 2 + 2)))"
  by (simp add: build_defs demo_defs)

lemma demo_given:
  "given (tpTriggerPrice bracket_buy)" "given (slTriggerPrice bracket_buy)"
  by (simp_all add: given_def bracket_buy_def market_buy_def)

lemmas run_defs = placeOrder_def placeOrder_try_def placeOrder_payload_def placeOrder_signatures_def
  sign_order_def sign_leg_def placeOrder_requestParams_def main_params_def add_tp_params_def
  add_sl_params_def price_field_def salt_field_def BigNumber_toString_def try_catch_def
  placeOrder_validate_def placeOrder_orders_def main_order_def
  tp_order_def sl_order_def priceBN_of_def given_def given_str_def with_default_def or_else_def Let_def

lemma market_is_market: "orderType market_buy = Some MARKET"
  by (simp add: market_buy_def)

lemma demo_payload_market:
  "placeOrder_payload demo_collaborators (demo_platform steady_clock JNull) demo_sdk market_buy =
     Inr [(''symbol'', JStr ''BTC-PERP''), (''side'', JStr ''BUY''), (''orderType'', JStr ''MARKET''),
          (''quantity'', JStr ''10000000000000000''), (''price'', JStr []),
          (''leverage'', JStr ''10000000000000000000''), (''salt'', JStr ''1700000000000''),
          (''creator'', JStr ''0xme''), (''clientId'', JStr []), (''reduceOnly'', JStr ''false''),
          (''orderSignature'', JStr ''signed:0xme/0xabc'')]"
  by (simp add: run_defs demo_defs text_defs)

lemma bracket_fields:
  "tpTriggerPrice bracket_buy = Some (Str ''70000'')" "tpOrderPrice bracket_buy = None"
  "tpOrderType bracket_buy = Some LIMIT"
  by (simp_all add: bracket_buy_def market_buy_def)

lemma answers:
  "adapter (demo_platform clk resp) r = Inr resp"
  by (simp add: demo_platform_def)

lemma signer_throws:
  "snd (placeOrder_try failing_signer (demo_platform steady_clock JNull) demo_sdk market_buy) =
     Inl (Error ''invalid key'')"
  by (simp add: run_defs demo_defs)

lemma request_throws:
  "snd (getAccountInfo_try demo_collaborators offline_platform demo_sdk) =
     Inl (Error ''timeout of 30000ms exceeded'')"
  by (simp add: getAccountInfo_try_def http_get_run offline_platform_def demo_platform_def
      response_error_interceptor_def get_prop_opt_def js_or_def)


section \<open>The claims\<close>

text \<open>
  C1 (as amended). The clock is read anew for each leg. In a call that builds its legs and
  whose two trigger prices are truthy, both legs exist, the main salt is the first
  reading, the take-profit salt the second reading plus 1 and the stop-loss salt the third
  reading plus 2. If the clock did not move between the readings these are the main salt
  plus 1 and plus 2; if the readings did not decrease, the three salts are pairwise
  distinct.
\<close>

theorem leg_salts:
  assumes "placeOrder_built co pf sdk p = Inr (m, tpo, slo)"
    and "given (tpTriggerPrice p)" and "given (slTriggerPrice p)"
  shows "\<exists>tp sl. tpo = Some tp \<and> slo = Some sl
       \<and> salt m = BN (of_int (Date_now pf 0))
       \<and> salt tp = BN (of_int (Date_now pf 1 + 1))
       \<and> salt sl = BN (of_int (Date_now pf 2 + 2))
       \<and> (Date_now pf 1 = Date_now pf 0 \<and> Date_now pf 2 = Date_now pf 0 \<longrightarrow>
            salt tp = BN (of_int (Date_now pf 0 + 1)) \<and> salt sl = BN (of_int (Date_now pf 0 + 2)))
       \<and> (Date_now pf 0 \<le> Date_now pf 1 \<and> Date_now pf 1 \<le> Date_now pf 2 \<longrightarrow>
            salt m \<noteq> salt tp \<and> salt m \<noteq> salt sl \<and> salt tp \<noteq> salt sl)"
proof -
  from assms(1) obtain smb sd ot priceBN where
    m: "m = main_order sdk p smb sd ot priceBN (quantity m) (leverage m) (BN 0) (BN (of_int (Date_now pf 0)))"
    and t: "tp_order co pf sdk p m (quantity m) (leverage m) (BN 0) 1 = Inr tpo"
    and s: "sl_order co pf sdk p m (quantity m) (leverage m) (BN 0) (if tpo = None then 1 else 2) = Inr slo"
    by (rule built_Inr)
  from tp_order_Inr(1) [OF t] assms(2) obtain tp where tp: "tpo = Some tp" by auto
  from sl_order_Inr(1) [OF s] assms(3) obtain sl where sl: "slo = Some sl" by auto
  have sm: "salt m = BN (of_int (Date_now pf 0))"
    by (subst m) (simp add: main_order_def)
  have st: "salt tp = BN (of_int (Date_now pf 1 + 1))"
    using tp_order_Inr(2) [OF t tp] by simp
  have ss: "salt sl = BN (of_int (Date_now pf 2 + 2))"
    using sl_order_Inr(2) [OF s sl] tp by simp
  show ?thesis
    using tp sl sm st ss by auto
qed

theorem leg_salts_witness:
  "given (tpTriggerPrice bracket_buy) \<and> given (slTriggerPrice bracket_buy)
   \<and> salts (placeOrder_built demo_collaborators (demo_platform steady_clock JNull) demo_sdk bracket_buy) =
       Some (BN 1700000000000, Some (BN 1700000000001), Some (BN 1700000000002))"
proof -
  note b = demo_built_bracket [of steady_clock]
  from leg_salts [OF b demo_given] obtain tp sl where
    tp: "Some (demo_leg 70000000000000000000000 (steady_clock 1 + 1)) = Some tp"
    and sl: "Some (demo_leg 0 (steady_clock 2 + 2)) = Some sl"
    and s0: "salt (demo_main_order (steady_clock 0)) = BN (of_int (Date_now (demo_platform steady_clock JNull) 0))"
    and s1: "salt tp = BN (of_int (Date_now (demo_platform steady_clock JNull) 1 + 1))"
    and s2: "salt sl = BN (of_int (Date_now (demo_platform steady_clock JNull) 2 + 2))"
    by blast
  have "salts (placeOrder_built demo_collaborators (demo_platform steady_clock JNull) demo_sdk bracket_buy)
        = Some (salt (demo_main_order (steady_clock 0)), Some (salt tp), Some (salt sl))"
    unfolding b salts_def using tp sl by auto
  also have "\<dots> = Some (BN 1700000000000, Some (BN 1700000000001), Some (BN 1700000000002))"
    unfolding s0 s1 s2 by (simp add: demo_platform_def steady_clock_def)
  finally show ?thesis using demo_given by simp
qed

theorem leg_salts_counterexample:
  "given (tpTriggerPrice bracket_buy) \<and> given (slTriggerPrice bracket_buy)
   \<and> salts (placeOrder_built demo_collaborators (demo_platform ticking_clock JNull) demo_sdk bracket_buy) =
       Some (BN 1700000000000, Some (BN 1700000000002), Some (BN 1700000000003))
   \<and> BN 1700000000002 \<noteq> BN (1700000000000 + 1)"
  using demo_given
  by (simp add: salts_def demo_built_bracket demo_main_order_def demo_leg_def ticking_clock_def)

text \<open>
  C2. Each of the five operations ends with a tagged result, \<open>Success\<close> with the data or
  \<open>Failure\<close> with a message, for every input, every collaborator and every platform; and
  whatever its body throws (a failed validation, a failed signature, a failed request, a
  response that cannot be read) comes back as the failure with \<open>formatError\<close> of it.
\<close>

theorem operations_return_results:
  "tagged (snd (placeOrder co pf sdk p))
   \<and> tagged (snd (cancelOrder co pf sdk c))
   \<and> tagged (snd (getAccountInfo co pf sdk))
   \<and> tagged (snd (getPositions co pf sdk s))
   \<and> tagged (snd (getOpenOrders co pf sdk s))
   \<and> (snd (placeOrder_try co pf sdk p) = Inl e \<longrightarrow>
        snd (placeOrder co pf sdk p) = Inr (Failure (JStr (formatError co e))))
   \<and> (snd (cancelOrder_try co pf sdk c) = Inl e \<longrightarrow>
        snd (cancelOrder co pf sdk c) = Inr (Failure (JStr (formatError co e))))
   \<and> (snd (getAccountInfo_try co pf sdk) = Inl e \<longrightarrow>
        snd (getAccountInfo co pf sdk) = Inr (Failure (JStr (formatError co e))))
   \<and> (snd (getPositions_try co pf sdk s) = Inl e \<longrightarrow>
        snd (getPositions co pf sdk s) = Inr (Failure (JStr (formatError co e))))
   \<and> (snd (getOpenOrders_try co pf sdk s) = Inl e \<longrightarrow>
        snd (getOpenOrders co pf sdk s) = Inr (Failure (JStr (formatError co e))))"
  unfolding placeOrder_def cancelOrder_def getAccountInfo_def getPositions_def getOpenOrders_def
  by (intro conjI impI try_catch_tagged try_catch_caught)

theorem operations_return_results_witness:
  "tagged (snd (placeOrder demo_collaborators (demo_platform steady_clock JNull) demo_sdk market_buy))
   \<and> tagged (snd (cancelOrder demo_collaborators (demo_platform steady_clock JNull) demo_sdk cancel_two))
   \<and> snd (placeOrder failing_signer (demo_platform steady_clock JNull) demo_sdk market_buy) =
       Inr (Failure (JStr ''invalid key''))
   \<and> snd (getAccountInfo demo_collaborators offline_platform demo_sdk) =
       Inr (Failure (JStr ''timeout of 30000ms exceeded''))"
proof -
  have f: "formatError failing_signer (Error m) = m" "formatError demo_collaborators (Error m) = m" for m
    by (simp_all add: failing_signer_def demo_collaborators_def demo_message_def)
  show ?thesis
    using operations_return_results [of demo_collaborators "demo_platform steady_clock JNull" demo_sdk
        market_buy cancel_two None "Error ''none''"]
      operations_return_results [of failing_signer "demo_platform steady_clock JNull" demo_sdk
        market_buy cancel_two None "Error ''invalid key''"]
      operations_return_results [of demo_collaborators offline_platform demo_sdk
        market_buy cancel_two None "Error ''timeout of 30000ms exceeded''"]
      signer_throws request_throws
    by (simp add: f)
qed

text \<open>
  C3 (as amended). In a call that builds its legs, the take-profit (stop-loss) leg exists
  exactly when its trigger price is truthy: supplied, and not \<open>0\<close>, \<open>NaN\<close> or the empty
  string. So a leg exists only if its trigger price was supplied; and every leg that
  exists is reduce-only and on the side opposite to the main order.
\<close>

theorem legs_follow_trigger_truthiness:
  assumes "placeOrder_built co pf sdk p = Inr (m, tpo, slo)"
  shows "(tpo \<noteq> None) = given (tpTriggerPrice p)
       \<and> (slo \<noteq> None) = given (slTriggerPrice p)
       \<and> (tpo \<noteq> None \<longrightarrow> tpTriggerPrice p \<noteq> None)
       \<and> (slo \<noteq> None \<longrightarrow> slTriggerPrice p \<noteq> None)
       \<and> (\<forall>leg. tpo = Some leg \<or> slo = Some leg \<longrightarrow> reduceOnly leg \<and> isLong leg = (\<not> isLong m))"
proof -
  from assms obtain t: "tp_order co pf sdk p m (quantity m) (leverage m) (BN 0) 1 = Inr tpo"
    and s: "sl_order co pf sdk p m (quantity m) (leverage m) (BN 0) (if tpo = None then 1 else 2) = Inr slo"
    by (rule built_Inr)
  have a: "(tpo \<noteq> None) = given (tpTriggerPrice p)" by (rule tp_order_Inr(1) [OF t])
  have b: "(slo \<noteq> None) = given (slTriggerPrice p)" by (rule sl_order_Inr(1) [OF s])
  have c: "tpo \<noteq> None \<longrightarrow> tpTriggerPrice p \<noteq> None"
    using a by (auto simp add: given_def split: option.splits)
  have d: "slo \<noteq> None \<longrightarrow> slTriggerPrice p \<noteq> None"
    using b by (auto simp add: given_def split: option.splits)
  have e: "reduceOnly leg \<and> isLong leg = (\<not> isLong m)" if "tpo = Some leg \<or> slo = Some leg" for leg
    using that tp_order_Inr(2) [OF t, of leg] sl_order_Inr(2) [OF s, of leg] by blast
  from a b c d e show ?thesis by blast
qed

theorem legs_follow_trigger_truthiness_witness:
  "placeOrder_built demo_collaborators (demo_platform steady_clock JNull) demo_sdk bracket_buy =
     Inr (demo_main_order 1700000000000,
          Some (demo_leg 70000000000000000000000 1700000000001),
          Some (demo_leg 0 1700000000002))
   \<and> given (tpTriggerPrice bracket_buy) \<and> given (slTriggerPrice bracket_buy)
   \<and> reduceOnly (demo_leg 70000000000000000000000 1700000000001)
   \<and> isLong (demo_leg 70000000000000000000000 1700000000001) = (\<not> isLong (demo_main_order 1700000000000))
   \<and> reduceOnly (demo_leg 0 1700000000002)
   \<and> isLong (demo_leg 0 1700000000002) = (\<not> isLong (demo_main_order 1700000000000))"
  using legs_follow_trigger_truthiness [OF demo_built_bracket [of steady_clock]]
    demo_built_bracket [of steady_clock]
  by (simp add: steady_clock_def)

theorem legs_follow_trigger_truthiness_counterexample:
  "tpTriggerPrice zero_trigger_buy = Some (Num (JFinite 0))
   \<and> placeOrder_built demo_collaborators (demo_platform steady_clock JNull) demo_sdk zero_trigger_buy =
       Inr (demo_main_order 1700000000000, None, None)"
  using demo_built_zero_trigger by (simp add: zero_trigger_buy_def)

text \<open>
  C4. With an absent or empty list of order hashes \<open>cancelOrder\<close> sends no request and
  returns a failure. With a non-empty list, once the message \<open>{"orderHashes": [...]}\<close> is
  signed, it sends one POST to the cancel endpoint whose form has exactly the fields
  \<open>symbol\<close>, \<open>orderHashes\<close> (the JSON text of the list), \<open>signature\<close> and \<open>parentAddress\<close>, the
  last being the wallet's own address unless one was supplied.
\<close>

theorem cancelOrder_requests:
  "(orderHashes p = None \<or> orderHashes p = Some [] \<longrightarrow>
      cancelOrder co pf sdk p =
        ([], Inr (Failure (JStr (formatError co (Error ''Order hashes are required''))))))
   \<and> (orderHashes p = Some hs \<and> hs \<noteq> [] \<and> signMessage co (cancel_message hs) = Inr sg \<longrightarrow>
      fst (cancelOrder co pf sdk p) =
        [request_interceptor (httpClient sdk)
           \<lparr>http_method = ''POST'', url = CANCEL_ORDER co,
            body = Some (URLSearchParams_toString
              [(''symbol'', CancelOrderParams.symbol p),
               (''orderHashes'', json_string_array hs),
               (''signature'', sg),
               (''parentAddress'', with_default (DipCoinPerpSDK.walletAddress sdk) (parentAddress p))]),
            config = \<lparr>params = [], headers = [(''Content-Type'', ''application/x-www-form-urlencoded'')]\<rparr>\<rparr>])"
proof (intro conjI impI)
  assume "orderHashes p = None \<or> orderHashes p = Some []"
  then show "cancelOrder co pf sdk p =
        ([], Inr (Failure (JStr (formatError co (Error ''Order hashes are required'')))))"
    by (auto simp add: cancelOrder_def cancelOrder_try_def try_catch_def Let_def)
next
  assume a: "orderHashes p = Some hs \<and> hs \<noteq> [] \<and> signMessage co (cancel_message hs) = Inr sg"
  then show "fst (cancelOrder co pf sdk p) =
        [request_interceptor (httpClient sdk)
           \<lparr>http_method = ''POST'', url = CANCEL_ORDER co,
            body = Some (URLSearchParams_toString
              [(''symbol'', CancelOrderParams.symbol p),
               (''orderHashes'', json_string_array hs),
               (''signature'', sg),
               (''parentAddress'', with_default (DipCoinPerpSDK.walletAddress sdk) (parentAddress p))]),
            config = \<lparr>params = [], headers = [(''Content-Type'', ''application/x-www-form-urlencoded'')]\<rparr>\<rparr>]"
    by (simp add: cancelOrder_def cancelOrder_try_def try_catch_def Let_def cancel_message_json
        hashes_json postForm_requests cancel_formData no_config_def spread_def)
qed

theorem cancelOrder_requests_witness:
  "orderHashes cancel_none = Some []
   \<and> cancelOrder demo_collaborators (demo_platform steady_clock JNull) demo_sdk cancel_none =
       ([], Inr (Failure (JStr ''Order hashes are required'')))
   \<and> orderHashes cancel_two = Some [''0xaa'', ''0xbb'']
   \<and> signMessage demo_collaborators (cancel_message [''0xaa'', ''0xbb'']) =
       Inr (''signed:'' @ cancel_message [''0xaa'', ''0xbb''])
   \<and> map body (fst (cancelOrder demo_collaborators (demo_platform steady_clock JNull) demo_sdk cancel_two)) =
       [Some ''symbol=BTC-PERP&orderHashes=%5B%220xaa%22%2C%220xbb%22%5D&signature=signed%3A%7B%22orderHashes%22%3A%5B%220xaa%22%2C%220xbb%22%5D%7D&parentAddress=0xme'']"
proof -
  have n: "orderHashes cancel_none = None \<or> orderHashes cancel_none = Some []"
    by (simp add: cancel_none_def cancel_two_def)
  have t: "orderHashes cancel_two = Some [''0xaa'', ''0xbb''] \<and> [''0xaa'', ''0xbb''] \<noteq> []
      \<and> signMessage demo_collaborators (cancel_message [''0xaa'', ''0xbb'']) =
          Inr (''signed:'' @ cancel_message [''0xaa'', ''0xbb''])"
    by (simp add: cancel_two_def demo_collaborators_def)
  have f: "formatError demo_collaborators (Error m) = m" for m
    by (simp add: demo_collaborators_def demo_message_def)
  have a: "cancelOrder demo_collaborators (demo_platform steady_clock JNull) demo_sdk cancel_none =
       ([], Inr (Failure (JStr ''Order hashes are required'')))"
    using cancelOrder_requests [of cancel_none demo_collaborators "demo_platform steady_clock JNull" demo_sdk]
      n by (simp add: f)
  have b: "map body (fst (cancelOrder demo_collaborators (demo_platform steady_clock JNull) demo_sdk cancel_two)) =
       [Some (URLSearchParams_toString
          [(''symbol'', ''BTC-PERP''),
           (''orderHashes'', json_string_array [''0xaa'', ''0xbb'']),
           (''signature'', ''signed:'' @ cancel_message [''0xaa'', ''0xbb'']),
           (''parentAddress'', ''0xme'')])]"
    using cancelOrder_requests [of cancel_two demo_collaborators "demo_platform steady_clock JNull" demo_sdk
        "[''0xaa'', ''0xbb'']" "''signed:'' @ cancel_message [''0xaa'', ''0xbb'']"] t
    by (simp add: request_interceptor_def cancel_two_def demo_sdk_def with_default_def)
  have c: "URLSearchParams_toString
          [(''symbol'', ''BTC-PERP''),
           (''orderHashes'', json_string_array [''0xaa'', ''0xbb'']),
           (''signature'', ''signed:'' @ cancel_message [''0xaa'', ''0xbb'']),
           (''parentAddress'', ''0xme'')] =
      ''symbol=BTC-PERP&orderHashes=%5B%220xaa%22%2C%220xbb%22%5D&signature=signed%3A%7B%22orderHashes%22%3A%5B%220xaa%22%2C%220xbb%22%5D%7D&parentAddress=0xme''"
    by (simp add: cancel_message_def json_string_array_def text_defs)
  from a b c t show ?thesis
    by (simp add: cancel_none_def cancel_two_def)
qed

text \<open>
  C5. For a MARKET intent, the main order that \<open>placeOrder\<close> builds is long exactly when the
  side is BUY, has the price zero, has as quantity the fixed-point conversion of the
  intent's quantity, and has \<open>reduceOnly\<close> as supplied, \<open>false\<close> when it was not; and the
  \<open>price\<close> field of the request parameters, and of the form that is posted, is the empty
  string.
\<close>

theorem market_order_canonical:
  assumes "orderType p = Some MARKET"
  shows "(placeOrder_built co pf sdk p = Inr (m, tpo, slo) \<longrightarrow>
            isLong m = (side p = Some BUY) \<and> price m = BN 0
          \<and> (\<exists>q. PlaceOrderParams.quantity p = Some q \<and> formatNormalToWeiBN co q = Inr (quantity m))
          \<and> reduceOnly m = with_default False (PlaceOrderParams.reduceOnly p)
          \<and> (PlaceOrderParams.reduceOnly p = None \<longrightarrow> \<not> reduceOnly m))
       \<and> (placeOrder_payload co pf sdk p = Inr rp \<longrightarrow>
            own_prop rp ''price'' = JStr [] \<and> (''price'', []) \<in> set (postForm_formData pf rp))"
proof (intro conjI impI)
  assume b: "placeOrder_built co pf sdk p = Inr (m, tpo, slo)"
  from b obtain smb sd ot q lev priceBN where
    v: "placeOrder_validate p = Inr (smb, sd, ot, q, lev)"
    and qu: "formatNormalToWeiBN co q = Inr (quantity m)"
    and m: "m = main_order sdk p smb sd ot priceBN (quantity m) (leverage m) (BN 0) (BN (of_int (Date_now pf 0)))"
    by (rule built_Inr)
  note vi = validate_Inr [OF v]
  from vi assms have ot: "ot = MARKET" by simp
  have f: "isLong m = (sd = BUY)" "price m = (if ot = LIMIT then priceBN else BN 0)"
      "reduceOnly m = with_default False (PlaceOrderParams.reduceOnly p)"
    by (subst m, simp add: main_order_def)+
  show "isLong m = (side p = Some BUY)" using f(1) vi by simp
  show "price m = BN 0" using f(2) ot by simp
  show "\<exists>q. PlaceOrderParams.quantity p = Some q \<and> formatNormalToWeiBN co q = Inr (quantity m)"
    using vi qu by blast
  show "reduceOnly m = with_default False (PlaceOrderParams.reduceOnly p)" by (rule f(3))
  show "\<not> reduceOnly m" if "PlaceOrderParams.reduceOnly p = None"
    using f(3) that by (simp add: with_default_def)
next
  assume r: "placeOrder_payload co pf sdk p = Inr rp"
  from payload_price [OF r] assms have pr: "map_of rp ''price'' = Some (JStr [])"
    and d: "distinct (map fst rp)"
    by (auto simp add: price_field_def split: option.splits)
  show "own_prop rp ''price'' = JStr []" using pr by (simp add: own_prop_def)
  have "(''price'', JStr []) \<in> set rp" using pr by (rule map_of_SomeD)
  then have "(''price'', spec_form_value pf (JStr [])) \<in> set (spec_form_fields pf rp)"
    unfolding spec_form_fields_def by force
  then show "(''price'', []) \<in> set (postForm_formData pf rp)"
    using postForm_formData_spec [OF d, of pf] by (simp add: spec_form_value_def)
qed

theorem market_order_canonical_witness:
  "orderType market_buy = Some MARKET
   \<and> placeOrder_built demo_collaborators (demo_platform steady_clock JNull) demo_sdk market_buy =
       Inr (demo_main_order 1700000000000, None, None)
   \<and> isLong (demo_main_order 1700000000000)
   \<and> price (demo_main_order 1700000000000) = BN 0
   \<and> formatNormalToWeiBN demo_collaborators (Str ''0.01'') = Inr (quantity (demo_main_order 1700000000000))
   \<and> \<not> reduceOnly (demo_main_order 1700000000000)
   \<and> (''price'', []) \<in> set (postForm_formData (demo_platform steady_clock JNull)
         [(''symbol'', JStr ''BTC-PERP''), (''side'', JStr ''BUY''), (''orderType'', JStr ''MARKET''),
          (''quantity'', JStr ''10000000000000000''), (''price'', JStr []),
          (''leverage'', JStr ''10000000000000000000''), (''salt'', JStr ''1700000000000''),
          (''creator'', JStr ''0xme''), (''clientId'', JStr []), (''reduceOnly'', JStr ''false''),
          (''orderSignature'', JStr ''signed:0xme/0xabc'')])"
  using market_order_canonical [OF market_is_market,
      of demo_collaborators "demo_platform steady_clock JNull" demo_sdk
         "demo_main_order 1700000000000" None None
         "[(''symbol'', JStr ''BTC-PERP''), (''side'', JStr ''BUY''), (''orderType'', JStr ''MARKET''),
          (''quantity'', JStr ''10000000000000000''), (''price'', JStr []),
          (''leverage'', JStr ''10000000000000000000''), (''salt'', JStr ''1700000000000''),
          (''creator'', JStr ''0xme''), (''clientId'', JStr []), (''reduceOnly'', JStr ''false''),
          (''orderSignature'', JStr ''signed:0xme/0xabc'')]"]
    market_is_market demo_built_market demo_payload_market
  by (simp add: market_buy_def with_default_def)

text \<open>
  C6. In a call that builds its legs, with a take-profit trigger price and no take-profit
  order price: a truthy trigger price gives a leg; the price of the leg is the fixed-point
  conversion of the trigger price when the take-profit order type is LIMIT, and zero when
  it is MARKET (or absent, which defaults to MARKET).
\<close>

theorem tp_price_from_trigger:
  assumes "placeOrder_built co pf sdk p = Inr (m, tpo, slo)"
    and "tpTriggerPrice p = Some trig" and "tpOrderPrice p = None"
  shows "(truthy (numstr_val trig) \<longrightarrow> tpo \<noteq> None)
       \<and> (\<forall>tp. tpo = Some tp \<longrightarrow>
             (tpOrderType p = Some LIMIT \<longrightarrow> formatNormalToWeiBN co trig = Inr (price tp))
           \<and> (tpOrderType p = Some MARKET \<longrightarrow> price tp = BN 0)
           \<and> (tpOrderType p = None \<longrightarrow> price tp = BN 0))"
proof -
  from assms(1) obtain t: "tp_order co pf sdk p m (quantity m) (leverage m) (BN 0) 1 = Inr tpo"
    by (rule built_Inr)
  have a: "truthy (numstr_val trig) \<longrightarrow> tpo \<noteq> None"
    using tp_order_Inr(1) [OF t] assms(2) by (simp add: given_def)
  have b: "(tpOrderType p = Some LIMIT \<longrightarrow> formatNormalToWeiBN co trig = Inr (price tp))
           \<and> (tpOrderType p = Some MARKET \<longrightarrow> price tp = BN 0)
           \<and> (tpOrderType p = None \<longrightarrow> price tp = BN 0)" if "tpo = Some tp" for tp
    using tp_order_Inr(2) [OF t that] assms(2,3)
    by (auto simp add: with_default_def or_else_def split: if_splits)
  from a b show ?thesis by blast
qed

theorem tp_price_from_trigger_witness:
  "placeOrder_built demo_collaborators (demo_platform steady_clock JNull) demo_sdk bracket_buy =
     Inr (demo_main_order 1700000000000,
          Some (demo_leg 70000000000000000000000 1700000000001),
          Some (demo_leg 0 1700000000002))
   \<and> tpTriggerPrice bracket_buy = Some (Str ''70000'') \<and> tpOrderPrice bracket_buy = None
   \<and> tpOrderType bracket_buy = Some LIMIT
   \<and> formatNormalToWeiBN demo_collaborators (Str ''70000'') =
       Inr (price (demo_leg 70000000000000000000000 1700000000001))"
  using tp_price_from_trigger [OF demo_built_bracket [of steady_clock] bracket_fields(1,2)]
    demo_built_bracket [of steady_clock] bracket_fields
  by (simp add: steady_clock_def)

text \<open>
  C7. When the server answers code 200, \<open>getPositions\<close> returns the same list whether the
  \<open>data\<close> of the answer is the list itself or an object whose \<open>data\<close> is that list.
\<close>

theorem getPositions_normalizes:
  assumes "adapter pf1 (hd (fst (getPositions co pf1 sdk s))) = Inr (JObj resp1)"
    and "map_of resp1 ''code'' = Some (JNum (JFinite 200))"
    and "map_of resp1 ''data'' = Some (JArr xs)"
    and "adapter pf2 (hd (fst (getPositions co pf2 sdk s))) = Inr (JObj resp2)"
    and "map_of resp2 ''code'' = Some (JNum (JFinite 200))"
    and "map_of resp2 ''data'' = Some (JObj env)"
    and "map_of env ''data'' = Some (JArr xs)"
  shows "snd (getPositions co pf1 sdk s) = Inr (Success (JArr xs))
       \<and> snd (getPositions co pf2 sdk s) = Inr (Success (JArr xs))"
  using getPositions_reply [OF assms(1)] getPositions_reply [OF assms(4)]
    list_result_bare [OF assms(2,3)] list_result_wrapped [OF assms(5,6,7)]
  by simp

theorem getPositions_normalizes_witness:
  "snd (getPositions demo_collaborators (demo_platform steady_clock bare_answer) demo_sdk None) =
     Inr (Success (JArr demo_positions))
   \<and> snd (getPositions demo_collaborators (demo_platform steady_clock wrapped_answer) demo_sdk None) =
     Inr (Success (JArr demo_positions))"
proof -
  have a1: "adapter (demo_platform steady_clock bare_answer)
      (hd (fst (getPositions demo_collaborators (demo_platform steady_clock bare_answer) demo_sdk None))) =
      Inr (JObj [(''code'', JNum (JFinite 200)), (''data'', JArr demo_positions)])"
    by (simp add: answers bare_answer_def)
  have a2: "adapter (demo_platform steady_clock wrapped_answer)
      (hd (fst (getPositions demo_collaborators (demo_platform steady_clock wrapped_answer) demo_sdk None))) =
      Inr (JObj [(''code'', JNum (JFinite 200)),
           (''data'', JObj [(''data'', JArr demo_positions), (''total'', JNum (JFinite 1))])])"
    by (simp add: answers wrapped_answer_def)
  have e: "map_of [(''data'', JArr demo_positions), (''total'', JNum (JFinite 1))] ''data'' =
      Some (JArr demo_positions)"
    by simp
  show ?thesis
    by (rule getPositions_normalizes [OF a1 _ _ a2 _ _ e]) simp_all
qed

text \<open>
  C8. For an object \<open>data\<close> (its properties in enumeration order, the keys distinct),
  \<open>postForm\<close> builds exactly the form the specification describes: one field for each key
  whose value is neither \<open>undefined\<close> nor \<open>null\<close>, in the order of the keys, a scalar as its
  string and an object-typed value as its JSON text (which always exists for such a
  value); the body that is sent is the URL-encoding of that form.
\<close>

theorem postForm_serializes:
  assumes "distinct (map fst data)"
  shows "postForm_formData pf data = spec_form_fields pf data
       \<and> map body (fst (postForm pf c u data cfg)) =
           [Some (URLSearchParams_toString (spec_form_fields pf data))]
       \<and> map fst (spec_form_fields pf data) =
           filter (\<lambda>k. own_prop data k \<noteq> JUndefined \<and> own_prop data k \<noteq> JNull) (Object_keys data)
       \<and> (\<forall>(k, v) \<in> set data. typeof_object v \<and> v \<noteq> JNull \<longrightarrow>
             JSON_stringify (Number_toString pf) v \<noteq> None)"
proof -
  have a: "postForm_formData pf data = spec_form_fields pf data"
    using assms by (rule postForm_formData_spec)
  have b: "map body (fst (postForm pf c u data cfg)) =
             [Some (URLSearchParams_toString (spec_form_fields pf data))]"
    using postForm_sent [of pf c u data cfg] a by simp
  have look: "\<And>k v. (k, v) \<in> set data \<Longrightarrow> own_prop data k = v"
    using assms by (simp add: own_prop_def)
  have c: "map fst (spec_form_fields pf data) =
             filter (\<lambda>k. own_prop data k \<noteq> JUndefined \<and> own_prop data k \<noteq> JNull) (Object_keys data)"
  proof -
    have "filter (\<lambda>p. snd p \<noteq> JUndefined \<and> snd p \<noteq> JNull) data =
          filter (\<lambda>p. own_prop data (fst p) \<noteq> JUndefined \<and> own_prop data (fst p) \<noteq> JNull) data"
      by (rule filter_cong) (use look in auto)
    then show ?thesis
      unfolding spec_form_fields_def Object_keys_def
      by (simp add: filter_map comp_def case_prod_unfold)
  qed
  have d: "\<forall>(k, v) \<in> set data. typeof_object v \<and> v \<noteq> JNull \<longrightarrow>
             JSON_stringify (Number_toString pf) v \<noteq> None"
    using json_of_object by blast
  from a b c d show ?thesis by blast
qed


theorem postForm_serializes_witness:
  "distinct (map fst demo_form)
   \<and> postForm_formData (demo_platform (\<lambda>i. 0) JNull) demo_form =
       [(''symbol'', ''BTC-PERP''),
        (''ids'', ''['' @ [CHR 0x22] @ ''a b'' @ [CHR 0x22] @ '','' @ [CHR 0x22] @ ''c'' @ [CHR 0x22] @ '']''),
        (''reduceOnly'', ''true''),
        (''count'', ''3'')]
   \<and> map body (fst (postForm (demo_platform (\<lambda>i. 0) JNull) (httpClient demo_sdk) ''/x'' demo_form None)) =
       [Some ''symbol=BTC-PERP&ids=%5B%22a+b%22%2C%22c%22%5D&reduceOnly=true&count=3'']"
proof -
  have h: "distinct (map fst demo_form)" by (simp add: demo_form_def)
  have v: "spec_form_fields (demo_platform (\<lambda>i. 0) JNull) demo_form =
       [(''symbol'', ''BTC-PERP''),
        (''ids'', ''['' @ [CHR 0x22] @ ''a b'' @ [CHR 0x22] @ '','' @ [CHR 0x22] @ ''c'' @ [CHR 0x22] @ '']''),
        (''reduceOnly'', ''true''),
        (''count'', ''3'')]"
    by (simp add: spec_form_fields_def spec_form_value_def demo_platform_def demo_form_def text_defs)
  show ?thesis
    using h postForm_serializes [OF h, of "demo_platform (\<lambda>i. 0) JNull" "httpClient demo_sdk" "''/x''" None]
    unfolding v by (simp add: text_defs)
qed

text \<open>
  C9. The presence tests of \<open>placeOrder\<close> are truthiness tests. A call in which symbol,
  side, order type, quantity or leverage is absent or falsy returns the failure for
  missing parameters and sends nothing; so does, with the failure for the missing price,
  a LIMIT call that passes that test and whose price is absent or falsy. Falsy are in
  particular the number \<open>0\<close> and the empty string, although they are supplied.
\<close>

theorem placeOrder_truthiness_validation:
  "(missing_required p \<longrightarrow>
      placeOrder co pf sdk p =
        ([], Inr (Failure (JStr (formatError co (Error ''Missing required order parameters''))))))
   \<and> (\<not> missing_required p \<and> orderType p = Some LIMIT \<and> \<not> given (PlaceOrderParams.price p) \<longrightarrow>
      placeOrder co pf sdk p =
        ([], Inr (Failure (JStr (formatError co (Error ''Price is required for LIMIT orders''))))))
   \<and> \<not> given None \<and> \<not> given (Some (Num (JFinite 0))) \<and> \<not> given (Some (Str []))
   \<and> \<not> given_str None \<and> \<not> given_str (Some [])"
  using validate_missing [of p] validate_price [of p]
  by (auto simp add: placeOrder_invalid given_def given_str_def)

theorem placeOrder_truthiness_validation_witness:
  "missing_required zero_quantity_buy
   \<and> placeOrder demo_collaborators (demo_platform steady_clock JNull) demo_sdk zero_quantity_buy =
       ([], Inr (Failure (JStr ''Missing required order parameters'')))
   \<and> \<not> missing_required empty_price_limit \<and> orderType empty_price_limit = Some LIMIT
   \<and> \<not> given (PlaceOrderParams.price empty_price_limit)
   \<and> placeOrder demo_collaborators (demo_platform steady_clock JNull) demo_sdk empty_price_limit =
       ([], Inr (Failure (JStr ''Price is required for LIMIT orders'')))"
proof -
  have a: "missing_required zero_quantity_buy"
    by (simp add: missing_required_def zero_quantity_buy_def market_buy_def given_def given_str_def)
  have b: "\<not> missing_required empty_price_limit \<and> orderType empty_price_limit = Some LIMIT
      \<and> \<not> given (PlaceOrderParams.price empty_price_limit)"
    by (simp add: missing_required_def empty_price_limit_def market_buy_def given_def given_str_def)
  have f: "formatError demo_collaborators (Error m) = m" for m
    by (simp add: demo_collaborators_def demo_message_def)
  show ?thesis
    using a b
      placeOrder_truthiness_validation [of zero_quantity_buy demo_collaborators
        "demo_platform steady_clock JNull" demo_sdk]
      placeOrder_truthiness_validation [of empty_price_limit demo_collaborators
        "demo_platform steady_clock JNull" demo_sdk]
    by (simp add: f)
qed

text \<open>
  C10. \<open>getAccountInfo\<close> returns a success only if the server answered with code 200 and a
  truthy \<open>data\<close>; an answer with code 200 and no \<open>data\<close> gives a failure; and on success the
  account has the five fields, each the server's value or, when that is absent (or
  falsy), the string \<open>"0"\<close>.
\<close>

theorem getAccountInfo_success:
  "(snd (getAccountInfo co pf sdk) = Inr (Success acct) \<longrightarrow>
      (\<exists>resp d. adapter pf (hd (fst (getAccountInfo co pf sdk))) = Inr resp
         \<and> get_prop resp ''code'' = Inr (JNum (JFinite 200))
         \<and> get_prop resp ''data'' = Inr d \<and> truthy d
         \<and> acct = JObj (map (\<lambda>f. (f, js_or (get_prop_opt d f) (JStr ''0''))) account_fields)))
   \<and> (adapter pf (hd (fst (getAccountInfo co pf sdk))) = Inr resp
        \<and> get_prop resp ''code'' = Inr (JNum (JFinite 200))
        \<and> get_prop resp ''data'' = Inr JUndefined \<longrightarrow>
      (\<exists>msg. get_prop resp ''message'' = Inr msg
         \<and> snd (getAccountInfo co pf sdk) = Inr (Failure (js_or msg (JStr ''Failed to get account info'')))))
   \<and> (adapter pf (hd (fst (getAccountInfo co pf sdk))) = Inr resp
        \<and> get_prop resp ''code'' = Inr (JNum (JFinite 200))
        \<and> get_prop resp ''data'' = Inr d \<and> truthy d \<longrightarrow>
      snd (getAccountInfo co pf sdk) =
        Inr (Success (JObj (map (\<lambda>f. (f, js_or (get_prop_opt d f) (JStr ''0''))) account_fields))))
   \<and> (get_prop_opt d f = JUndefined \<longrightarrow> js_or (get_prop_opt d f) (JStr ''0'') = JStr ''0'')"
proof (intro conjI impI)
  assume "snd (getAccountInfo co pf sdk) = Inr (Success acct)"
  then show "\<exists>resp d. adapter pf (hd (fst (getAccountInfo co pf sdk))) = Inr resp
         \<and> get_prop resp ''code'' = Inr (JNum (JFinite 200))
         \<and> get_prop resp ''data'' = Inr d \<and> truthy d
         \<and> acct = JObj (map (\<lambda>f. (f, js_or (get_prop_opt d f) (JStr ''0''))) account_fields)"
    unfolding getAccountInfo_reply
    by (auto split: sum.splits simp: account_result_success_iff)
next
  assume a: "adapter pf (hd (fst (getAccountInfo co pf sdk))) = Inr resp
        \<and> get_prop resp ''code'' = Inr (JNum (JFinite 200))
        \<and> get_prop resp ''data'' = Inr JUndefined"
  then have "\<exists>msg. get_prop resp ''message'' = Inr msg
     \<and> account_result resp = Inr (Failure (js_or msg (JStr ''Failed to get account info'')))"
    using account_result_no_data [of resp JUndefined] by simp
  with a show "\<exists>msg. get_prop resp ''message'' = Inr msg
         \<and> snd (getAccountInfo co pf sdk) = Inr (Failure (js_or msg (JStr ''Failed to get account info'')))"
    using getAccountInfo_reply [of co pf sdk] by auto
next
  assume a: "adapter pf (hd (fst (getAccountInfo co pf sdk))) = Inr resp
        \<and> get_prop resp ''code'' = Inr (JNum (JFinite 200))
        \<and> get_prop resp ''data'' = Inr d \<and> truthy d"
  then have "account_result resp =
     Inr (Success (JObj (map (\<lambda>f. (f, js_or (get_prop_opt d f) (JStr ''0''))) account_fields)))"
    using account_result_success_iff by blast
  with a show "snd (getAccountInfo co pf sdk) =
        Inr (Success (JObj (map (\<lambda>f. (f, js_or (get_prop_opt d f) (JStr ''0''))) account_fields)))"
    using getAccountInfo_reply [of co pf sdk] by simp
next
  assume "get_prop_opt d f = JUndefined"
  then show "js_or (get_prop_opt d f) (JStr ''0'') = JStr ''0''"
    by (simp add: js_or_def)
qed

theorem getAccountInfo_success_witness:
  "snd (getAccountInfo demo_collaborators (demo_platform steady_clock account_answer) demo_sdk) =
     Inr (Success (JObj [(''walletBalance'', JStr ''12.5''), (''totalUnrealizedProfit'', JStr ''0''),
       (''accountValue'', JStr ''20''), (''freeCollateral'', JStr ''0''), (''totalMargin'', JStr ''0'')]))
   \<and> snd (getAccountInfo demo_collaborators (demo_platform steady_clock no_data_answer) demo_sdk) =
     Inr (Failure (JStr ''Failed to get account info''))"
proof -
  let ?d = "JObj [(''walletBalance'', JStr ''12.5''), (''accountValue'', JStr ''20'')]"
  have a: "snd (getAccountInfo demo_collaborators (demo_platform steady_clock account_answer) demo_sdk) =
     Inr (Success (JObj (map (\<lambda>f. (f, js_or (get_prop_opt ?d f) (JStr ''0''))) account_fields)))"
    using getAccountInfo_success [of demo_collaborators "demo_platform steady_clock account_answer"
        demo_sdk "JObj (map (\<lambda>f. (f, js_or (get_prop_opt ?d f) (JStr ''0''))) account_fields)"
        account_answer ?d "''totalMargin''"]
    by (simp add: answers account_answer_def)
  have b: "\<exists>msg. get_prop no_data_answer ''message'' = Inr msg
      \<and> snd (getAccountInfo demo_collaborators (demo_platform steady_clock no_data_answer) demo_sdk) =
        Inr (Failure (js_or msg (JStr ''Failed to get account info'')))"
    using getAccountInfo_success [of demo_collaborators "demo_platform steady_clock no_data_answer"
        demo_sdk JNull no_data_answer JNull "''totalMargin''"]
    by (simp add: answers no_data_answer_def)
  from a b show ?thesis
    by (auto simp add: account_fields_def get_prop_opt_def js_or_def no_data_answer_def)
qed

end
